theory Spec2Isabelle
  imports Complex_Main
begin

section \<open>JavaScript values\<close>

text \<open>
  The values the dispatcher and the webhook route inspect: what \<^verbatim>\<open>JSON.parse\<close>
  returns, and \<^verbatim>\<open>undefined\<close> for a property that is not there. An object is the
  list of its own properties (each key once).
\<close>

datatype json =
    JUndefined
  | JNull
  | JBool bool
  | JNum real
  | JStr string
  | JArr "json list"
  | JObj "(string \<times> json) list"

text \<open>\<^verbatim>\<open>!!v\<close>: the values JavaScript treats as true in a condition.\<close>

fun truthy :: "json \<Rightarrow> bool" where
  "truthy JUndefined = False"
| "truthy JNull = False"
| "truthy (JBool b) = b"
| "truthy (JNum n) = (n \<noteq> 0)"
| "truthy (JStr s) = (s \<noteq> [])"
| "truthy (JArr xs) = True"
| "truthy (JObj kvs) = True"

text \<open>
  \<^verbatim>\<open>v?.k\<close> for the keys the code reads (none of them is a built-in property of a
  string, number, boolean or array). On \<^verbatim>\<open>null\<close> and \<^verbatim>\<open>undefined\<close> the plain
  read \<^verbatim>\<open>v.k\<close> throws a TypeError, which \<open>read_prop\<close> returns as an error.
\<close>

fun get_prop :: "json \<Rightarrow> string \<Rightarrow> json" where
  "get_prop (JObj kvs) k = (case map_of kvs k of None \<Rightarrow> JUndefined | Some v \<Rightarrow> v)"
| "get_prop v k = JUndefined"

datatype js_error = Error string | TypeError string

fun read_prop :: "json \<Rightarrow> string \<Rightarrow> js_error + json" where
  "read_prop JUndefined k = Inl (TypeError ''Cannot read properties of undefined'')"
| "read_prop JNull k = Inl (TypeError ''Cannot read properties of null'')"
| "read_prop v k = Inr (get_prop v k)"

text \<open>\<^verbatim>\<open>typeof x === "string" && x\<close>.\<close>

fun nonempty_string :: "json \<Rightarrow> bool" where
  "nonempty_string (JStr s) = (s \<noteq> [])"
| "nonempty_string v = False"

section \<open>Handler registry and dispatcher of the REST API\<close>

text \<open>
  \<^verbatim>\<open>extractReceivingBroadcasterId\<close> (apps/rest-api/src/handlers/eventHandler.ts).
  The two top-level reads demand a non-empty string; the reads in the first element
  of \<^verbatim>\<open>event.data\<close> demand only a truthy value, which is returned as it is
  (the cast \<^verbatim>\<open>as string\<close> does nothing at run time).
\<close>

definition extractReceivingBroadcasterId :: "json \<Rightarrow> json" where
  "extractReceivingBroadcasterId event =
     (if \<not> truthy event then JNull
      else if nonempty_string (get_prop event ''to_broadcaster_user_id'')
        then get_prop event ''to_broadcaster_user_id''
      else if nonempty_string (get_prop event ''broadcaster_user_id'')
        then get_prop event ''broadcaster_user_id''
      else (case get_prop event ''data'' of
              JArr (d0 # ds) \<Rightarrow>
                (if truthy (get_prop d0 ''to_broadcaster_user_id'')
                   then get_prop d0 ''to_broadcaster_user_id''
                 else if truthy (get_prop d0 ''broadcaster_user_id'')
                   then get_prop d0 ''broadcaster_user_id''
                 else JNull)
            | _ \<Rightarrow> JNull))"

text \<open>
  What a dispatch does besides returning: the lines it logs (the fixed part of each
  line), the row it selects from \<^verbatim>\<open>integrations_twitch\<close>, the read of the handler
  map, the \<^verbatim>\<open>TwitchApi\<close> it constructs, and the call of an application handler with
  its arguments.
\<close>

record RestApiHandlerContext =
  twitchApi :: json

datatype effect =
    Log string
  | DbSelect json
  | HandlerLookup json
  | NewTwitchApi json
  | HandlerCall string json RestApiHandlerContext
  | AppEffect string

text \<open>An asynchronous function: its effects, then a rejection (\<open>Inl\<close>) or a result.\<close>

type_synonym 'a promise = "effect list \<times> (js_error + 'a)"

type_synonym EventHandler = "json \<Rightarrow> RestApiHandlerContext \<Rightarrow> unit promise"
type_synonym InternalHandler = "json \<Rightarrow> RestApiHandlerContext \<Rightarrow> unit promise"
type_synonym schema = "json \<Rightarrow> js_error + json"
type_synonym twitchHandlers = "string \<rightharpoonup> InternalHandler"

text \<open>
  The function \<^verbatim>\<open>registerTwitchHandler\<close> stores: validate when a schema was given,
  call the handler, and catch whatever either of them throws.
\<close>

definition validate :: "schema option \<Rightarrow> json \<Rightarrow> js_error + json" where
  "validate sch data = (case sch of None \<Rightarrow> Inr data | Some parse \<Rightarrow> parse data)"

definition wrapped_handler ::
  "string \<Rightarrow> EventHandler \<Rightarrow> schema option \<Rightarrow> InternalHandler" where
  "wrapped_handler eventType handler sch data context =
     (case validate sch data of
        Inl err \<Rightarrow> ([Log ''Error in handler for''], Inr ())
      | Inr parsedData \<Rightarrow>
          (case handler parsedData context of
             (fx, Inl err) \<Rightarrow>
               (HandlerCall eventType parsedData context # fx
                  @ [Log ''Error in handler for''], Inr ())
           | (fx, Inr u) \<Rightarrow>
               (HandlerCall eventType parsedData context # fx, Inr ())))"

definition registerTwitchHandler ::
  "twitchHandlers \<Rightarrow> string \<Rightarrow> EventHandler \<Rightarrow> schema option \<Rightarrow> twitchHandlers" where
  "registerTwitchHandler hs eventType handler sch =
     hs(eventType \<mapsto> wrapped_handler eventType handler sch)"

text \<open>
  \<^verbatim>\<open>this.twitchHandlers.get(eventType)\<close>: the keys of the map are strings, and the
  event type arrives unvalidated, so a value that is no string finds nothing.
\<close>

fun handlers_get :: "twitchHandlers \<Rightarrow> json \<Rightarrow> InternalHandler option" where
  "handlers_get hs (JStr t) = hs t"
| "handlers_get hs v = None"

text \<open>
  The answer of \<^verbatim>\<open>supabase.from("integrations_twitch").select("user_id")
  .eq("twitch_user_id", id).single()\<close>: the row and the error, each possibly null.
\<close>

record db_answer =
  row :: json
  db_error :: "string option"

type_synonym supabase = "json \<Rightarrow> db_answer"

text \<open>\<^verbatim>\<open>HandlerRegistry.processTwitchEvent\<close> of the REST API.\<close>

definition processTwitchEvent ::
  "twitchHandlers \<Rightarrow> supabase \<Rightarrow> json \<Rightarrow> json \<Rightarrow> unit promise" where
  "processTwitchEvent hs db eventType data =
     (let broadcasterId = extractReceivingBroadcasterId data in
      if \<not> truthy broadcasterId then
        ([Log ''No broadcaster id found in event''],
         Inl (Error ''No broadcaster id found in event''))
      else
        (let ans = db broadcasterId in
         if db_error ans \<noteq> None \<or> \<not> truthy (row ans) then
           ([DbSelect broadcasterId, Log ''Broadcaster not found in database''], Inr ())
         else
           (case handlers_get hs eventType of
              None \<Rightarrow>
                ([DbSelect broadcasterId, HandlerLookup eventType,
                  Log ''No handler found for event type:''], Inr ())
            | Some handler \<Rightarrow>
                (case handler data \<lparr>twitchApi = broadcasterId\<rparr> of
                   (fx, r) \<Rightarrow>
                     ([DbSelect broadcasterId, HandlerLookup eventType,
                       NewTwitchApi broadcasterId] @ fx, r)))))"

text \<open>
  A caller that awaits one dispatch after the other, as the dispatch-isolation
  scenario does: a dispatch that rejects ends the sequence there.
\<close>

fun dispatch_all ::
  "twitchHandlers \<Rightarrow> supabase \<Rightarrow> (json \<times> json) list \<Rightarrow> unit promise" where
  "dispatch_all hs db [] = ([], Inr ())"
| "dispatch_all hs db ((eventType, data) # rest) =
     (case processTwitchEvent hs db eventType data of
        (fx, Inl err) \<Rightarrow> (fx, Inl err)
      | (fx, Inr u) \<Rightarrow>
          (case dispatch_all hs db rest of (fx', r) \<Rightarrow> (fx @ fx', r)))"

text \<open>
  The payloads with no tenant identifier: neither key at the top level, nor in any
  element of a nested \<^verbatim>\<open>data\<close> array.
\<close>

definition has_tenant_field :: "json \<Rightarrow> bool" where
  "has_tenant_field v =
     (if get_prop v ''to_broadcaster_user_id'' = JUndefined
      then get_prop v ''broadcaster_user_id'' \<noteq> JUndefined else True)"

definition nested_data :: "json \<Rightarrow> json list" where
  "nested_data event = (case get_prop event ''data'' of JArr ds \<Rightarrow> ds | _ \<Rightarrow> [])"

definition no_tenant_identifier :: "json \<Rightarrow> bool" where
  "no_tenant_identifier event =
     (\<not> has_tenant_field event \<and> list_all (\<lambda>d. \<not> has_tenant_field d) (nested_data event))"

text \<open>A payload whose tenant resolves and is a row of the table.\<close>

definition known_tenant :: "supabase \<Rightarrow> json \<Rightarrow> bool" where
  "known_tenant db data =
     (truthy (extractReceivingBroadcasterId data)
      \<and> db_error (db (extractReceivingBroadcasterId data)) = None
      \<and> truthy (row (db (extractReceivingBroadcasterId data))))"

text \<open>Concrete collaborators for the examples below.\<close>

definition no_handlers :: twitchHandlers where
  "no_handlers = Map.empty"

definition known_broadcaster :: db_answer where
  "known_broadcaster = \<lparr>row = JObj [(''user_id'', JStr ''u-1'')], db_error = None\<rparr>"

definition unknown_broadcaster :: db_answer where
  "unknown_broadcaster = \<lparr>row = JNull, db_error = Some ''PGRST116''\<rparr>"

definition db_only_42 :: supabase where
  "db_only_42 bid = (if bid = JStr ''42'' then known_broadcaster else unknown_broadcaster)"

definition user_update_event :: json where
  "user_update_event =
     JObj [(''user_id'', JStr ''1337''), (''user_login'', JStr ''cool_user''),
           (''user_name'', JStr ''Cool_User'')]"

definition stream_event :: "string \<Rightarrow> json" where
  "stream_event bid =
     JObj [(''broadcaster_user_id'', JStr bid), (''broadcaster_user_login'', JStr ''cool_user'')]"

definition throwing_handler :: EventHandler where
  "throwing_handler data context = ([AppEffect ''started''], Inl (Error ''boom''))"

definition quiet_handler :: EventHandler where
  "quiet_handler data context = ([AppEffect ''done''], Inr ())"

definition two_handlers :: twitchHandlers where
  "two_handlers =
     registerTwitchHandler
       (registerTwitchHandler no_handlers ''stream.offline'' throwing_handler None)
       ''stream.online'' quiet_handler None"

section \<open>EventSub WebSocket receiver\<close>

text \<open>
  \<^verbatim>\<open>TwitchEventSubReceiver\<close> (packages/twitch-eventsub/src/index.ts). JavaScript
  numbers that hold durations and instants are real numbers here (rounding of doubles
  is not modelled); the two counters are natural numbers. The record also keeps a
  trace of what the receiver asked of its environment: timers and socket closes.
\<close>

datatype ConnectionState = Disconnected | Connecting | Connected | Reconnecting

datatype ready_state = CONNECTING | OPEN | CLOSING | CLOSED

record websocket =
  url :: string
  readyState :: ready_state
  handlers_attached :: bool

datatype timer_action = Reconnect | CheckKeepalive

datatype rx_effect =
    RxLog string
  | SetTimeout timer_action real
  | ClearTimeout
  | SocketClose string

record receiver =
  ws :: "websocket option"
  sessionId :: "string option"
  reconnectUrl :: "string option"
  keepaliveTimer :: "real option"
  keepaliveInterval :: real
  lastKeepaliveTime :: real
  missedKeepalives :: nat
  wsUrl :: string
  maxReconnectAttempts :: nat
  baseReconnectDelay :: real
  maxReconnectDelay :: real
  maxMissedKeepalives :: nat
  connectionState :: ConnectionState
  reconnectAttempts :: nat
  trace :: "rx_effect list"

definition emit :: "rx_effect list \<Rightarrow> receiver \<Rightarrow> receiver" where
  "emit fx r = r\<lparr>trace := trace r @ fx\<rparr>"

text \<open>
  \<^verbatim>\<open>getReconnectDelay\<close>; \<open>rnd\<close> is the value \<^verbatim>\<open>Math.random()\<close> returns, a number
  in \<open>[0, 1)\<close>.
\<close>

definition getReconnectDelay :: "receiver \<Rightarrow> real \<Rightarrow> real" where
  "getReconnectDelay r rnd =
     (let delay = min (baseReconnectDelay r * 2 ^ reconnectAttempts r) (maxReconnectDelay r)
      in delay + rnd * 1000)"

definition scheduleReconnect :: "receiver \<Rightarrow> real \<Rightarrow> receiver" where
  "scheduleReconnect r rnd =
     (let delay = getReconnectDelay r rnd
      in emit [RxLog ''Scheduling reconnect'', SetTimeout Reconnect delay] r)"

definition cleanup :: "receiver \<Rightarrow> receiver" where
  "cleanup r =
     (let r1 = (case keepaliveTimer r of
                  None \<Rightarrow> r
                | Some t \<Rightarrow> emit [ClearTimeout] (r\<lparr>keepaliveTimer := None\<rparr>))
      in case ws r1 of
           None \<Rightarrow> r1
         | Some s \<Rightarrow>
             (if readyState s = OPEN \<or> readyState s = CONNECTING
              then emit [SocketClose (url s)] (r1\<lparr>ws := None\<rparr>)
              else r1\<lparr>ws := None\<rparr>))"

text \<open>
  \<^verbatim>\<open>setupEventHandlers\<close> attaches the four callbacks; \<open>onopen\<close> is the one the
  transport calls when the connection is established.
\<close>

definition setupEventHandlers :: "receiver \<Rightarrow> receiver" where
  "setupEventHandlers r =
     (case ws r of
        None \<Rightarrow> r
      | Some s \<Rightarrow> r\<lparr>ws := Some (s\<lparr>handlers_attached := True\<rparr>)\<rparr>)"

definition onopen :: "receiver \<Rightarrow> receiver" where
  "onopen r =
     emit [RxLog ''WebSocket connected'']
       (r\<lparr>connectionState := Connected, reconnectAttempts := 0\<rparr>)"

text \<open>
  \<^verbatim>\<open>new WebSocket(u)\<close> returns a socket in state CONNECTING, or throws when the
  URL is not one it accepts: \<open>ctor u\<close> says whether it accepts \<open>u\<close>.
\<close>

definition new_WebSocket :: "string \<Rightarrow> websocket" where
  "new_WebSocket u = \<lparr>url = u, readyState = CONNECTING, handlers_attached = False\<rparr>"

text \<open>\<^verbatim>\<open>connect\<close>: the receiver afterwards, and the error it rejects with, if any.\<close>

definition connect :: "(string \<Rightarrow> bool) \<Rightarrow> receiver \<Rightarrow> receiver \<times> js_error option" where
  "connect ctor r =
     (if connectionState r = Connecting \<or> connectionState r = Connected then
        (emit [RxLog ''Already connected or connecting''] r, None)
      else
        (let r1 = cleanup (emit [RxLog ''Connecting to Twitch EventSub WebSocket'']
                             (r\<lparr>connectionState := Connecting\<rparr>))
         in if ctor (wsUrl r1) then
              (setupEventHandlers (r1\<lparr>ws := Some (new_WebSocket (wsUrl r1))\<rparr>), None)
            else
              (emit [RxLog ''Connection failed''] (r1\<lparr>connectionState := Disconnected\<rparr>),
               Some (Error ''Invalid URL''))))"

definition disconnect :: "receiver \<Rightarrow> receiver" where
  "disconnect r =
     cleanup (emit [RxLog ''Disconnecting from Twitch EventSub'']
                (r\<lparr>connectionState := Disconnected,
                   reconnectAttempts := maxReconnectAttempts r\<rparr>))"

text \<open>\<^verbatim>\<open>if (this.reconnectUrl)\<close>: a string that is neither null nor empty.\<close>

definition url_known :: "receiver \<Rightarrow> bool" where
  "url_known r = (case reconnectUrl r of None \<Rightarrow> False | Some u \<Rightarrow> u \<noteq> [])"

definition reconnect ::
  "(string \<Rightarrow> bool) \<Rightarrow> receiver \<Rightarrow> real \<Rightarrow> receiver \<times> js_error option" where
  "reconnect ctor r rnd =
     (if connectionState r = Connecting \<or> connectionState r = Reconnecting then
        (emit [RxLog ''Already attempting to connect, skipping duplicate reconnect''] r, None)
      else if reconnectAttempts r \<ge> maxReconnectAttempts r then
        (emit [RxLog ''Max reconnection attempts reached. Giving up.'']
           (r\<lparr>connectionState := Disconnected\<rparr>), None)
      else
        (let r1 = r\<lparr>connectionState := Reconnecting,
                     reconnectAttempts := reconnectAttempts r + 1\<rparr>
         in case reconnectUrl r1 of
              None \<Rightarrow> connect ctor r1
            | Some u \<Rightarrow>
                (if u = [] then connect ctor r1
                 else
                   (let r2 = cleanup (emit [RxLog ''Reconnecting using reconnect URL''] r1)
                    in if ctor u then
                         ((setupEventHandlers (r2\<lparr>ws := Some (new_WebSocket u)\<rparr>))
                            \<lparr>connectionState := Connected, reconnectAttempts := 0\<rparr>, None)
                       else
                         (scheduleReconnect (emit [RxLog ''Reconnection failed''] r2) rnd,
                          None)))))"

text \<open>
  \<^verbatim>\<open>startKeepaliveTimer\<close> and \<^verbatim>\<open>checkKeepalive\<close>; \<open>now\<close> is \<^verbatim>\<open>Date.now()\<close>.
  The field \<open>keepaliveTimer\<close> holds the delay the current timer was armed with.
\<close>

definition startKeepaliveTimer :: "receiver \<Rightarrow> real \<Rightarrow> receiver" where
  "startKeepaliveTimer r timeoutSeconds =
     (let r1 = (case keepaliveTimer r of None \<Rightarrow> r | Some t \<Rightarrow> emit [ClearTimeout] r);
          checkInterval = (timeoutSeconds + 2) * 1000
      in emit [SetTimeout CheckKeepalive checkInterval]
           (r1\<lparr>keepaliveInterval := timeoutSeconds, keepaliveTimer := Some checkInterval\<rparr>))"

definition ws_close :: "receiver \<Rightarrow> receiver" where
  "ws_close r =
     (case ws r of
        None \<Rightarrow> r
      | Some s \<Rightarrow>
          (if readyState s = OPEN \<or> readyState s = CONNECTING
           then emit [SocketClose (url s)] (r\<lparr>ws := Some (s\<lparr>readyState := CLOSING\<rparr>)\<rparr>)
           else r))"

definition checkKeepalive :: "receiver \<Rightarrow> real \<Rightarrow> receiver" where
  "checkKeepalive r now =
     (let timeSinceLastKeepalive = now - lastKeepaliveTime r;
          expectedInterval = keepaliveInterval r * 1000;
          rearm = (\<lambda>r'. let nextCheckIn = keepaliveInterval r' * 1000
                        in emit [SetTimeout CheckKeepalive nextCheckIn]
                             (r'\<lparr>keepaliveTimer := Some nextCheckIn\<rparr>))
      in if timeSinceLastKeepalive > expectedInterval + 2000 then
           (let r1 = r\<lparr>missedKeepalives := missedKeepalives r + 1\<rparr>
            in if missedKeepalives r1 \<ge> maxMissedKeepalives r1 then ws_close r1
               else rearm r1)
         else rearm r)"

text \<open>\<^verbatim>\<open>handleClose\<close>; \<open>closeCode\<close> is \<^verbatim>\<open>event.code\<close>.\<close>

definition handleClose :: "receiver \<Rightarrow> nat \<Rightarrow> real \<Rightarrow> receiver" where
  "handleClose r closeCode rnd =
     (let r1 = cleanup (emit [RxLog ''WebSocket closed''] (r\<lparr>connectionState := Disconnected\<rparr>))
      in if closeCode = 4001 then emit [RxLog ''Client error - not reconnecting''] r1
         else if closeCode = 4003 then
           scheduleReconnect
             (emit [RxLog ''Connection unused - reconnecting with fresh connection'']
                r1\<lparr>reconnectUrl := None\<rparr>) rnd
         else if closeCode = 4007 then
           scheduleReconnect
             (emit [RxLog ''Invalid reconnect URL - will use fresh connection'']
                r1\<lparr>reconnectUrl := None\<rparr>) rnd
         else if closeCode = 1000 then
           (let r2 = emit [RxLog ''Normal closure''] r1
            in if url_known r2 then scheduleReconnect r2 rnd else r2)
         else
           (if url_known r1 then
              scheduleReconnect (emit [RxLog ''Using reconnect URL for recovery''] r1) rnd
            else
              scheduleReconnect
                (emit [RxLog ''No reconnect URL, will create fresh connection''] r1) rnd))"

text \<open>The delays of the reconnect timers a trace holds, in the order they were set.\<close>

fun reconnect_timers :: "rx_effect list \<Rightarrow> real list" where
  "reconnect_timers [] = []"
| "reconnect_timers (SetTimeout Reconnect d # fx) = d # reconnect_timers fx"
| "reconnect_timers (e # fx) = reconnect_timers fx"

fun keepalive_timers :: "rx_effect list \<Rightarrow> real list" where
  "keepalive_timers [] = []"
| "keepalive_timers (SetTimeout CheckKeepalive d # fx) = d # keepalive_timers fx"
| "keepalive_timers (e # fx) = keepalive_timers fx"

fun socket_closes :: "rx_effect list \<Rightarrow> string list" where
  "socket_closes [] = []"
| "socket_closes (SocketClose u # fx) = u # socket_closes fx"
| "socket_closes (e # fx) = socket_closes fx"

text \<open>The receiver the constructor builds from its defaults, and states reached from it.\<close>

definition initial_receiver :: receiver where
  "initial_receiver =
     \<lparr>ws = None, sessionId = None, reconnectUrl = None, keepaliveTimer = None,
      keepaliveInterval = 10, lastKeepaliveTime = 0, missedKeepalives = 0,
      wsUrl = ''wss://eventsub.wss.twitch.tv/ws'', maxReconnectAttempts = 10,
      baseReconnectDelay = 1000, maxReconnectDelay = 30000, maxMissedKeepalives = 10,
      connectionState = Disconnected, reconnectAttempts = 0, trace = []\<rparr>"

text \<open>
  The URL a reconnect should open, in the words of the close-code table: the stored
  reconnect URL when one is known, the configured URL otherwise.
\<close>

definition best_url :: "receiver \<Rightarrow> string" where
  "best_url r = (case reconnectUrl r of None \<Rightarrow> wsUrl r | Some u \<Rightarrow> if u = [] then wsUrl r else u)"

definition resuming_receiver :: receiver where
  "resuming_receiver =
     initial_receiver\<lparr>reconnectUrl := Some ''wss://eventsub.wss.twitch.tv/ws?resume=1'',
                       reconnectAttempts := 3\<rparr>"

definition welcomed_receiver :: receiver where
  "welcomed_receiver =
     startKeepaliveTimer
       (initial_receiver\<lparr>ws := Some \<lparr>url = ''wss://eventsub.wss.twitch.tv/ws'',
                                         readyState = OPEN, handlers_attached = True\<rparr>,
                          maxMissedKeepalives := 2, connectionState := Connected\<rparr>) 10"

definition accept_all :: "string \<Rightarrow> bool" where
  "accept_all u = True"

section \<open>Outbound Twitch API client\<close>

text \<open>
  \<^verbatim>\<open>TwitchApiBaseClient\<close>. One outbound call is \<^verbatim>\<open>api(config)\<close>: the request
  interceptor, the HTTP exchange, the response interceptor, which may call
  \<^verbatim>\<open>api(config)\<close> again. The environment answers by position: the \<open>n\<close>-th read of
  the stored token, the \<open>n\<close>-th refresh, the \<open>n\<close>-th exchange (which sees the
  Authorization header). The call record is the request config with its
  \<^verbatim>\<open>__retryCount\<close>, and counts what the call has done so far.
\<close>

definition MAX_RETRIES :: nat where
  "MAX_RETRIES = 2"

text \<open>
  An exchange resolves with a status, or rejects with an AxiosError, which may lack
  its \<^verbatim>\<open>config\<close> and may lack a response (no status).
\<close>

datatype http_result = Response nat | AxiosError bool "nat option"

datatype client_error = Thrown js_error | Rejected "nat option"

record client_env =
  broadcaster_id :: "string option"
  getChannelAccessToken :: "nat \<Rightarrow> js_error + string"
  refreshUserToken :: "nat \<Rightarrow> js_error + string option"
  exchange :: "nat \<Rightarrow> string \<Rightarrow> http_result"

record call =
  retryCount :: "nat option"
  token_reads :: nat
  exchanges :: nat
  refreshes :: nat

definition new_call :: call where
  "new_call = \<lparr>retryCount = None, token_reads = 0, exchanges = 0, refreshes = 0\<rparr>"

text \<open>\<^verbatim>\<open>config.__retryCount || 0\<close>.\<close>

definition currentRetryCount :: "call \<Rightarrow> nat" where
  "currentRetryCount c = (case retryCount c of None \<Rightarrow> 0 | Some n \<Rightarrow> n)"

definition has_broadcaster :: "client_env \<Rightarrow> bool" where
  "has_broadcaster env = (case broadcaster_id env of None \<Rightarrow> False | Some b \<Rightarrow> b \<noteq> [])"

text \<open>
  An error the request interceptor throws carries no \<^verbatim>\<open>config\<close>, so the response
  interceptor passes it on as it is.
\<close>

function clientApi :: "client_env \<Rightarrow> call \<Rightarrow> call \<times> (client_error + nat)" where
  "clientApi env c =
     (if \<not> has_broadcaster env then
        (c, Inl (Thrown (Error ''Broadcaster ID is required in Twitch client interceptor'')))
      else
        (case getChannelAccessToken env (token_reads c) of
           Inl err \<Rightarrow> (c\<lparr>token_reads := token_reads c + 1\<rparr>, Inl (Thrown err))
         | Inr token \<Rightarrow>
             (let c1 = c\<lparr>token_reads := token_reads c + 1, exchanges := exchanges c + 1\<rparr>
              in case exchange env (exchanges c) (''Bearer '' @ token) of
                   Response st \<Rightarrow> (c1, Inr st)
                 | AxiosError has_config statusCode \<Rightarrow>
                     (if \<not> has_config then (c1, Inl (Rejected statusCode))
                      else if statusCode = Some 401 \<and> currentRetryCount c1 < MAX_RETRIES then
                        (let c2 = c1\<lparr>retryCount := Some (currentRetryCount c1 + 1),
                                      refreshes := refreshes c1 + 1\<rparr>
                         in case refreshUserToken env (refreshes c1) of
                              Inl refreshError \<Rightarrow> (c2, Inl (Thrown refreshError))
                            | Inr None \<Rightarrow> (c2, Inl (Rejected statusCode))
                            | Inr (Some newToken) \<Rightarrow>
                                (if newToken = [] then (c2, Inl (Rejected statusCode))
                                 else clientApi env c2))
                      else (c1, Inl (Rejected statusCode))))))"
  by pat_completeness auto
termination
  by (relation "measure (\<lambda>(env, c). MAX_RETRIES - currentRetryCount c)")
     (auto simp: currentRetryCount_def)

text \<open>Environments for the examples: every exchange answers 401, every refresh works.\<close>

definition always_401 :: client_env where
  "always_401 =
     \<lparr>broadcaster_id = Some ''42'',
      getChannelAccessToken = (\<lambda>n. Inr ''stored''),
      refreshUserToken = (\<lambda>n. Inr (Some ''fresh'')),
      exchange = (\<lambda>n auth. AxiosError True (Some 401))\<rparr>"

definition once_401 :: client_env where
  "once_401 =
     \<lparr>broadcaster_id = Some ''42'',
      getChannelAccessToken = (\<lambda>n. Inr ''stored''),
      refreshUserToken = (\<lambda>n. Inr (Some ''fresh'')),
      exchange = (\<lambda>n auth. if n = 0 then AxiosError True (Some 401) else Response 200)\<rparr>"

text \<open>
  The request interceptor of \<^verbatim>\<open>appInterceptor\<close>. \<open>updated_at\<close> is what
  \<^verbatim>\<open>new Date(updated_at).getTime()\<close> gives, \<open>None\<close> when the string is no date
  (NaN, which compares false); \<open>now\<close> is \<^verbatim>\<open>Date.now()\<close>.
\<close>

record app_token =
  access_token :: string
  expires_in :: int
  updated_at :: "int option"

record request_headers =
  Client_Id :: string
  Content_Type :: string
  Authorization :: string

definition checkTokenExpiry :: "int \<Rightarrow> int option \<Rightarrow> int \<Rightarrow> bool" where
  "checkTokenExpiry now updatedAtTimestamp expiresIn =
     (case updatedAtTimestamp of
        None \<Rightarrow> False
      | Some u \<Rightarrow> (let expiresInMs = expiresIn * 1000 in now > u + expiresInMs))"

text \<open>
  The result: how many times \<^verbatim>\<open>refreshAppToken\<close> was called, and the headers of the
  outgoing request or the error the interceptor rejects with. The local \<open>token\<close> is
  assigned as in the source; the header is built from \<open>access_token\<close>.
\<close>

definition appInterceptor_request ::
  "string \<Rightarrow> int \<Rightarrow> (js_error + app_token) \<Rightarrow> (js_error + string option)
     \<Rightarrow> nat \<times> (js_error + request_headers)" where
  "appInterceptor_request client_id now stored refreshAppToken =
     (case stored of
        Inl err \<Rightarrow> (0, Inl err)
      | Inr t \<Rightarrow>
          (let token = access_token t;
               finish = (\<lambda>token. Inr \<lparr>Client_Id = client_id,
                                      Content_Type = ''application/json'',
                                      Authorization = ''Bearer '' @ access_token t\<rparr>)
           in if checkTokenExpiry now (updated_at t) (expires_in t) then
                (case refreshAppToken of
                   Inl err \<Rightarrow> (1, Inl err)
                 | Inr None \<Rightarrow> (1, Inl (Error ''Failed to refresh app token''))
                 | Inr (Some newToken) \<Rightarrow>
                     (if newToken = [] then (1, Inl (Error ''Failed to refresh app token''))
                      else (1, finish newToken)))
              else (0, finish token)))"

definition stale_token :: app_token where
  "stale_token = \<lparr>access_token = ''old'', expires_in = 3600, updated_at = Some 0\<rparr>"

section \<open>Webhook transport\<close>

text \<open>
  apps/rest-api/src/utils/twitch-eventsub.ts, the verification middleware and the
  route. The environment holds the secret, the digest \<^verbatim>\<open>createHmac("sha256",
  secret).update(message).digest("hex")\<close>, \<^verbatim>\<open>JSON.parse\<close> (\<open>None\<close> when it throws),
  the handler registry and the database.
\<close>

definition TWITCH_MESSAGE_ID :: string where
  "TWITCH_MESSAGE_ID = ''twitch-eventsub-message-id''"

definition TWITCH_MESSAGE_TIMESTAMP :: string where
  "TWITCH_MESSAGE_TIMESTAMP = ''twitch-eventsub-message-timestamp''"

definition TWITCH_MESSAGE_SIGNATURE :: string where
  "TWITCH_MESSAGE_SIGNATURE = ''twitch-eventsub-message-signature''"

definition TWITCH_MESSAGE_TYPE :: string where
  "TWITCH_MESSAGE_TYPE = ''twitch-eventsub-message-type''"

definition MESSAGE_TYPE_VERIFICATION :: string where
  "MESSAGE_TYPE_VERIFICATION = ''webhook_callback_verification''"

definition MESSAGE_TYPE_NOTIFICATION :: string where
  "MESSAGE_TYPE_NOTIFICATION = ''notification''"

definition MESSAGE_TYPE_REVOCATION :: string where
  "MESSAGE_TYPE_REVOCATION = ''revocation''"

definition HMAC_PREFIX :: string where
  "HMAC_PREFIX = ''sha256=''"

record webhook_env =
  TWITCH_WEBHOOK_SECRET :: string
  createHmac :: "string \<Rightarrow> string \<Rightarrow> string"
  JSON_parse :: "string \<Rightarrow> json option"
  registry :: twitchHandlers
  database :: supabase

definition buildHmacMessage :: "string \<Rightarrow> string \<Rightarrow> string \<Rightarrow> string" where
  "buildHmacMessage messageId timestamp bodyString = messageId @ timestamp @ bodyString"

definition generateHmac :: "webhook_env \<Rightarrow> string \<Rightarrow> string \<Rightarrow> string" where
  "generateHmac env secret message = createHmac env secret message"

text \<open>\<^verbatim>\<open>crypto.timingSafeEqual\<close> throws when the two buffers differ in length.\<close>

definition timingSafeEqual :: "string \<Rightarrow> string \<Rightarrow> js_error + bool" where
  "timingSafeEqual a b =
     (if length a \<noteq> length b then Inl (Error ''Input buffers must have the same byte length'')
      else Inr (a = b))"

definition verifySignature ::
  "webhook_env \<Rightarrow> string \<Rightarrow> string \<Rightarrow> string \<Rightarrow> string \<Rightarrow> bool" where
  "verifySignature env messageId timestamp body receivedSignature =
     (let secret = TWITCH_WEBHOOK_SECRET env;
          message = buildHmacMessage messageId timestamp body;
          expectedHmac = generateHmac env secret message;
          expectedSignature = HMAC_PREFIX @ expectedHmac
      in case timingSafeEqual expectedSignature receivedSignature of
           Inl err \<Rightarrow> False
         | Inr eq \<Rightarrow> eq)"

text \<open>\<^verbatim>\<open>String.prototype.toLowerCase\<close> on the ASCII letters header names are made of.\<close>

definition toLowerCase_char :: "char \<Rightarrow> char" where
  "toLowerCase_char c =
     (case map_of (zip ''ABCDEFGHIJKLMNOPQRSTUVWXYZ'' ''abcdefghijklmnopqrstuvwxyz'') c of
        None \<Rightarrow> c
      | Some l \<Rightarrow> l)"

definition toLowerCase :: "string \<Rightarrow> string" where
  "toLowerCase s = map toLowerCase_char s"

fun getTwitchHeader :: "(string \<times> string) list \<Rightarrow> string \<Rightarrow> string option" where
  "getTwitchHeader [] headerName = None"
| "getTwitchHeader ((key, v) # rest) headerName =
     (if toLowerCase key = toLowerCase headerName then Some v
      else getTwitchHeader rest headerName)"

datatype response_body = JsonBody string string | TextBody string | EmptyBody

record response =
  status :: nat
  body :: response_body

text \<open>\<^verbatim>\<open>!h\<close> for a header value: null or the empty string.\<close>

fun header_missing :: "string option \<Rightarrow> bool" where
  "header_missing None = True"
| "header_missing (Some v) = (v = [])"

definition handleEventsub :: "webhook_env \<Rightarrow> json \<Rightarrow> unit promise" where
  "handleEventsub env payload =
     (let subscription = get_prop payload ''subscription'';
          event = get_prop payload ''event''
      in case read_prop subscription ''type'' of
           Inl err \<Rightarrow> ([], Inl err)
         | Inr eventType \<Rightarrow> processTwitchEvent (registry env) (database env) eventType event)"

definition handleVerification :: "json \<Rightarrow> response promise" where
  "handleVerification notification =
     (let challenge = get_prop notification ''challenge''
      in case challenge of
           JStr ch \<Rightarrow>
             (if ch = [] then
                ([], Inr \<lparr>status = 400,
                          body = JsonBody ''Invalid challenge''
                                   ''Challenge field is missing or invalid''\<rparr>)
              else
                (case read_prop (get_prop notification ''subscription'') ''id'' of
                   Inl err \<Rightarrow> ([], Inl err)
                 | Inr sid \<Rightarrow>
                     ([Log ''EventSub verification challenge received''],
                      Inr \<lparr>status = 200, body = TextBody ch\<rparr>)))
         | _ \<Rightarrow>
             ([], Inr \<lparr>status = 400,
                       body = JsonBody ''Invalid challenge''
                                ''Challenge field is missing or invalid''\<rparr>))"

definition handleNotification :: "webhook_env \<Rightarrow> json \<Rightarrow> response promise" where
  "handleNotification env notification =
     (case handleEventsub env notification of
        (fx, Inl err) \<Rightarrow> (fx, Inl err)
      | (fx, Inr u) \<Rightarrow> (fx, Inr \<lparr>status = 204, body = EmptyBody\<rparr>))"

definition handleRevocation :: "json \<Rightarrow> response promise" where
  "handleRevocation notification =
     (let subscription = get_prop notification ''subscription''
      in case read_prop subscription ''id'' of
           Inl err \<Rightarrow> ([], Inl err)
         | Inr sid \<Rightarrow>
             ([Log ''EventSub subscription revoked''],
              Inr \<lparr>status = 204, body = EmptyBody\<rparr>))"

definition handleTwitchEventSub :: "webhook_env \<Rightarrow> json \<Rightarrow> string \<Rightarrow> response promise" where
  "handleTwitchEventSub env notification messageType =
     (if \<not> truthy notification \<or> messageType = [] then
        ([], Inr \<lparr>status = 500,
                  body = JsonBody ''Internal error''
                           ''Notification data not found in context''\<rparr>)
      else if messageType = MESSAGE_TYPE_VERIFICATION then handleVerification notification
      else if messageType = MESSAGE_TYPE_NOTIFICATION then handleNotification env notification
      else if messageType = MESSAGE_TYPE_REVOCATION then handleRevocation notification
      else ([Log ''Unknown message type''], Inr \<lparr>status = 204, body = EmptyBody\<rparr>))"

text \<open>
  \<^verbatim>\<open>twitchEventSubVerification\<close>, with the route handler as \<open>next\<close>; \<open>rawBody\<close> is the
  text of the request body (the raw-body middleware stores it, and the fallback reads
  the same text).
\<close>

definition twitchEventSubVerification ::
  "webhook_env \<Rightarrow> (string \<times> string) list \<Rightarrow> string
     \<Rightarrow> (json \<Rightarrow> string \<Rightarrow> response promise) \<Rightarrow> response promise" where
  "twitchEventSubVerification env headers rawBody next =
     (let messageId = getTwitchHeader headers TWITCH_MESSAGE_ID;
          timestamp = getTwitchHeader headers TWITCH_MESSAGE_TIMESTAMP;
          signature = getTwitchHeader headers TWITCH_MESSAGE_SIGNATURE;
          messageType = getTwitchHeader headers TWITCH_MESSAGE_TYPE
      in if header_missing messageId \<or> header_missing timestamp
            \<or> header_missing signature \<or> header_missing messageType then
           ([], Inr \<lparr>status = 400,
                     body = JsonBody ''Missing required headers''
                              ''Twitch EventSub webhook requires specific headers''\<rparr>)
         else
           (case (messageId, timestamp, signature, messageType) of
              (Some mid, Some ts, Some sg, Some mt) \<Rightarrow>
                (if \<not> verifySignature env mid ts rawBody sg then
                   ([Log ''Invalid Twitch EventSub signature''],
                    Inr \<lparr>status = 403,
                         body = JsonBody ''Invalid signature''
                                  ''Request signature verification failed''\<rparr>)
                 else
                   (case JSON_parse env rawBody of
                      None \<Rightarrow>
                        ([], Inr \<lparr>status = 400,
                                  body = JsonBody ''Invalid JSON''
                                           ''Failed to parse notification body''\<rparr>)
                    | Some notification \<Rightarrow> next notification mt))
            | _ \<Rightarrow>
                ([], Inr \<lparr>status = 400,
                          body = JsonBody ''Missing required headers''
                                   ''Twitch EventSub webhook requires specific headers''\<rparr>)))"

text \<open>The route \<^verbatim>\<open>POST /webhooks/twitch/eventsub\<close>: the middleware, then the handler.\<close>

definition webhook :: "webhook_env \<Rightarrow> (string \<times> string) list \<Rightarrow> string \<Rightarrow> response promise" where
  "webhook env headers rawBody =
     twitchEventSubVerification env headers rawBody (handleTwitchEventSub env)"

text \<open>The four required headers, each present and not empty.\<close>

definition required_headers ::
  "(string \<times> string) list \<Rightarrow> string \<Rightarrow> string \<Rightarrow> string \<Rightarrow> string \<Rightarrow> bool" where
  "required_headers headers mid ts sg mt =
     (getTwitchHeader headers TWITCH_MESSAGE_ID = Some mid \<and> mid \<noteq> []
      \<and> getTwitchHeader headers TWITCH_MESSAGE_TIMESTAMP = Some ts \<and> ts \<noteq> []
      \<and> getTwitchHeader headers TWITCH_MESSAGE_SIGNATURE = Some sg \<and> sg \<noteq> []
      \<and> getTwitchHeader headers TWITCH_MESSAGE_TYPE = Some mt \<and> mt \<noteq> [])"

text \<open>A payload whose \<^verbatim>\<open>subscription\<close> can be read from: neither missing nor null.\<close>

definition has_subscription :: "json \<Rightarrow> bool" where
  "has_subscription notification =
     (get_prop notification ''subscription'' \<noteq> JUndefined
      \<and> get_prop notification ''subscription'' \<noteq> JNull)"

text \<open>
  An environment for the examples. Computing HMAC-SHA256 and parsing JSON are outside
  the model, so the examples use a stand-in digest and a parser that knows the four
  example bodies (on which it agrees with \<^verbatim>\<open>JSON.parse\<close>); a request is signed
  with whatever digest the environment computes.
\<close>

definition example_hmac :: "string \<Rightarrow> string \<Rightarrow> string" where
  "example_hmac secret message = secret @ message"

definition verification_body :: string where
  \<open>verification_body =
     ''{"challenge":"abc123","subscription":{"id":"sub-1","type":"stream.online"}}''\<close>

definition verification_json :: json where
  "verification_json =
     JObj [(''challenge'', JStr ''abc123''),
           (''subscription'', JObj [(''id'', JStr ''sub-1''), (''type'', JStr ''stream.online'')])]"

definition notification_body :: string where
  \<open>notification_body =
     ''{"subscription":{"id":"sub-1","type":"stream.online"},"event":{"broadcaster_user_id":"42"}}''\<close>

definition notification_json :: json where
  "notification_json =
     JObj [(''subscription'', JObj [(''id'', JStr ''sub-1''), (''type'', JStr ''stream.online'')]),
           (''event'', JObj [(''broadcaster_user_id'', JStr ''42'')])]"

definition revocation_body :: string where
  \<open>revocation_body =
     ''{"subscription":{"id":"sub-1","type":"stream.online","status":"user_removed"}}''\<close>

definition revocation_json :: json where
  "revocation_json =
     JObj [(''subscription'',
            JObj [(''id'', JStr ''sub-1''), (''type'', JStr ''stream.online''),
                  (''status'', JStr ''user_removed'')])]"

definition example_parse :: "string \<Rightarrow> json option" where
  "example_parse s =
     (if s = verification_body then Some verification_json
      else if s = notification_body then Some notification_json
      else if s = revocation_body then Some revocation_json
      else if s = ''{}'' then Some (JObj [])
      else None)"

definition example_env :: webhook_env where
  "example_env =
     \<lparr>TWITCH_WEBHOOK_SECRET = ''s3cret'', createHmac = example_hmac,
      JSON_parse = example_parse, registry = two_handlers, database = db_only_42\<rparr>"

definition example_signature :: "string \<Rightarrow> string" where
  "example_signature rawBody =
     ''sha256='' @ example_hmac ''s3cret'' (''m-1'' @ ''2024-05-01T12:00:00Z'' @ rawBody)"

definition example_headers :: "string \<Rightarrow> string \<Rightarrow> (string \<times> string) list" where
  "example_headers sg mt =
     [(''twitch-eventsub-message-id'', ''m-1''),
      (''twitch-eventsub-message-timestamp'', ''2024-05-01T12:00:00Z''),
      (''twitch-eventsub-message-signature'', sg),
      (''twitch-eventsub-message-type'', mt)]"

text \<open>
  Further examples: a notification of a \<^verbatim>\<open>user.update\<close> event, which names no
  broadcaster; a validator that wants a non-empty string \<^verbatim>\<open>broadcaster_user_id\<close>
  and returns the payload as it is; a raid event, whose tenant resolves but which that
  validator refuses; two handlers registered with the validator.
\<close>

definition user_update_notification :: json where
  "user_update_notification =
     JObj [(''subscription'', JObj [(''id'', JStr ''sub-2''), (''type'', JStr ''user.update'')]),
           (''event'', user_update_event)]"

definition broadcaster_schema :: schema where
  "broadcaster_schema data =
     (if nonempty_string (get_prop data ''broadcaster_user_id'') then Inr data
      else Inl (Error ''ZodError''))"

definition raid_event :: json where
  "raid_event =
     JObj [(''from_broadcaster_user_id'', JStr ''7''), (''to_broadcaster_user_id'', JStr ''42'')]"

definition validated_handlers :: twitchHandlers where
  "validated_handlers =
     registerTwitchHandler
       (registerTwitchHandler no_handlers ''stream.offline'' throwing_handler
          (Some broadcaster_schema))
       ''stream.online'' quiet_handler (Some broadcaster_schema)"

text \<open>
  Further client environments: the first exchange answers 401 and a retry would
  succeed, but the refresh throws, or returns no token; every exchange answers 403.
\<close>

definition refresh_throws :: client_env where
  "refresh_throws =
     \<lparr>broadcaster_id = Some ''42'',
      getChannelAccessToken = (\<lambda>n. Inr ''stored''),
      refreshUserToken = (\<lambda>n. Inl (Error ''No refresh token found for channel'')),
      exchange = (\<lambda>n auth. if n = 0 then AxiosError True (Some 401) else Response 200)\<rparr>"

definition refresh_empty :: client_env where
  "refresh_empty =
     \<lparr>broadcaster_id = Some ''42'',
      getChannelAccessToken = (\<lambda>n. Inr ''stored''),
      refreshUserToken = (\<lambda>n. Inr None),
      exchange = (\<lambda>n auth. if n = 0 then AxiosError True (Some 401) else Response 200)\<rparr>"

definition always_403 :: client_env where
  "always_403 =
     \<lparr>broadcaster_id = Some ''42'',
      getChannelAccessToken = (\<lambda>n. Inr ''stored''),
      refreshUserToken = (\<lambda>n. Inr (Some ''fresh'')),
      exchange = (\<lambda>n auth. AxiosError True (Some 403))\<rparr>"

section \<open>Dispatcher: properties\<close>

lemma no_tenant_extract:
  "no_tenant_identifier event \<Longrightarrow> extractReceivingBroadcasterId event = JNull"
  unfolding extractReceivingBroadcasterId_def no_tenant_identifier_def
    has_tenant_field_def nested_data_def
  by (auto split: json.splits list.splits if_splits)

lemma user_update_no_tenant: "no_tenant_identifier user_update_event"
  by (simp add: no_tenant_identifier_def has_tenant_field_def nested_data_def
      user_update_event_def)

lemma extract_stream_event:
  "extractReceivingBroadcasterId (stream_event b) = (if b = [] then JNull else JStr b)"
  by (simp add: extractReceivingBroadcasterId_def stream_event_def)

text \<open>
  What the guard on the broadcaster id does: for a payload with no tenant identifier
  \<^verbatim>\<open>processTwitchEvent\<close> logs one line, selects no row, reads and calls no
  handler, and rejects.
\<close>

lemma processTwitchEvent_no_tenant:
  assumes "no_tenant_identifier data"
  shows "processTwitchEvent hs db eventType data =
           ([Log ''No broadcaster id found in event''],
            Inl (Error ''No broadcaster id found in event''))"
  using assms by (simp add: processTwitchEvent_def no_tenant_extract)

lemma user_update_notification_parts:
  "read_prop (get_prop user_update_notification ''subscription'') ''type''
     = Inr (JStr ''user.update'')"
  "get_prop user_update_notification ''event'' = user_update_event"
  by (simp_all add: user_update_notification_def)

text \<open>
  Claim C1 at a failing input: a \<^verbatim>\<open>user.update\<close> event carries no broadcaster id.
  The claim says the dispatcher drops it without throwing; \<^verbatim>\<open>processTwitchEvent\<close>
  logs and then rejects with \<^verbatim>\<open>Error("No broadcaster id found in event")\<close>, and
  the notification route, which awaits the dispatch without a catch, rejects with it
  instead of answering 204.
\<close>

theorem processTwitchEvent_no_tenant_rejects:
  "no_tenant_identifier user_update_event
   \<and> processTwitchEvent two_handlers db_only_42 (JStr ''user.update'') user_update_event =
       ([Log ''No broadcaster id found in event''],
        Inl (Error ''No broadcaster id found in event''))
   \<and> handleNotification example_env user_update_notification =
       ([Log ''No broadcaster id found in event''],
        Inl (Error ''No broadcaster id found in event''))"
  using user_update_no_tenant processTwitchEvent_no_tenant [OF user_update_no_tenant]
  by (simp add: handleNotification_def handleEventsub_def Let_def
      user_update_notification_parts)

theorem processTwitchEvent_no_tenant_rejects_witness:
  "snd (processTwitchEvent two_handlers db_only_42 (JStr ''user.update'') user_update_event)
     \<noteq> Inr ()
   \<and> snd (handleNotification example_env user_update_notification)
     \<noteq> Inr \<lparr>status = 204, body = EmptyBody\<rparr>"
  using processTwitchEvent_no_tenant_rejects by simp

text \<open>
  Claim C10: when the resolved broadcaster id has no row in \<^verbatim>\<open>integrations_twitch\<close>,
  or the lookup returns an error, \<^verbatim>\<open>processTwitchEvent\<close> returns normally after
  the select and one log line: it reads no handler, constructs no \<^verbatim>\<open>TwitchApi\<close>,
  calls no handler and does not throw.
\<close>

theorem processTwitchEvent_unknown_broadcaster:
  assumes "extractReceivingBroadcasterId data = bid" and "truthy bid"
    and "db_error (db bid) \<noteq> None \<or> \<not> truthy (row (db bid))"
  shows "processTwitchEvent hs db eventType data =
           ([DbSelect bid, Log ''Broadcaster not found in database''], Inr ())"
  using assms by (auto simp add: processTwitchEvent_def Let_def)

theorem processTwitchEvent_unknown_broadcaster_witness:
  "extractReceivingBroadcasterId (stream_event ''43'') = JStr ''43'' \<and> truthy (JStr ''43'')
   \<and> db_error (db_only_42 (JStr ''43'')) \<noteq> None
   \<and> processTwitchEvent two_handlers db_only_42 (JStr ''stream.online'') (stream_event ''43'') =
        ([DbSelect (JStr ''43''), Log ''Broadcaster not found in database''], Inr ())"
proof -
  have e: "extractReceivingBroadcasterId (stream_event ''43'') = JStr ''43''"
    by (simp add: extract_stream_event)
  have t: "truthy (JStr ''43'')" by simp
  have d: "db_error (db_only_42 (JStr ''43'')) \<noteq> None"
    by (simp add: db_only_42_def unknown_broadcaster_def)
  have "processTwitchEvent two_handlers db_only_42 (JStr ''stream.online'') (stream_event ''43'') =
          ([DbSelect (JStr ''43''), Log ''Broadcaster not found in database''], Inr ())"
    using e t d
    by (intro processTwitchEvent_unknown_broadcaster
          [where db = db_only_42 and bid = "JStr ''43''" and data = "stream_event ''43''"])
       simp_all
  with e t d show ?thesis by simp
qed

lemma wrapped_handler_returns: "snd (wrapped_handler t h s d c) = Inr ()"
  by (simp add: wrapped_handler_def split: sum.splits prod.splits)

lemma wrapped_handler_calls:
  "validate s d = Inr p \<Longrightarrow> HandlerCall t p c \<in> set (fst (wrapped_handler t h s d c))"
  by (simp add: wrapped_handler_def split: sum.splits prod.splits)

lemma wrapped_handler_invalid:
  "validate s d = Inl err \<Longrightarrow>
   wrapped_handler t h s d c = ([Log ''Error in handler for''], Inr ())"
  by (simp add: wrapped_handler_def)

lemma wrapped_handler_throws:
  "validate s d = Inr q \<Longrightarrow> h q c = (fx, Inl err) \<Longrightarrow>
   wrapped_handler t h s d c = (HandlerCall t q c # fx @ [Log ''Error in handler for''], Inr ())"
  by (simp add: wrapped_handler_def)

lemma wrapped_handler_resolves:
  "validate s d = Inr q \<Longrightarrow> h q c = (fx, Inr u) \<Longrightarrow>
   wrapped_handler t h s d c = (HandlerCall t q c # fx, Inr ())"
  by (simp add: wrapped_handler_def)

lemma wrapped_handler_effects:
  "validate s d = Inr q \<Longrightarrow> set (fst (h q c)) \<subseteq> set (fst (wrapped_handler t h s d c))"
  by (cases "h q c") (auto simp add: wrapped_handler_def split: sum.splits)

lemma processTwitchEvent_registered_eq:
  assumes "known_tenant db d" and "hs t = Some (wrapped_handler t h s)"
  shows "processTwitchEvent hs db (JStr t) d =
           ([DbSelect (extractReceivingBroadcasterId d), HandlerLookup (JStr t),
             NewTwitchApi (extractReceivingBroadcasterId d)]
              @ fst (wrapped_handler t h s d \<lparr>twitchApi = extractReceivingBroadcasterId d\<rparr>),
            Inr ())"
  using assms wrapped_handler_returns [of t h s d "\<lparr>twitchApi = extractReceivingBroadcasterId d\<rparr>"]
  by (auto simp add: processTwitchEvent_def known_tenant_def Let_def split: prod.splits)

lemma dispatch_all_three:
  assumes "processTwitchEvent hs db t1 d1 = (f1, Inr ())"
    and "processTwitchEvent hs db t2 d2 = (f2, Inr ())"
    and "processTwitchEvent hs db t3 d3 = (f3, Inr ())"
  shows "dispatch_all hs db [(t1, d1), (t2, d2), (t3, d3)] = (f1 @ f2 @ f3, Inr ())"
  using assms by simp

text \<open>
  Claim C8. The wrapper \<^verbatim>\<open>registerTwitchHandler\<close> stores validates with the schema
  when one was given and never rejects: when the validator throws it logs and does not
  call the handler; when the handler throws it
  logs after the handler's own effects; otherwise it is the call of the handler on the
  validated payload. So with handlers registered for two different types \<open>X\<close> and
  \<open>Y\<close> (no assumption on what the handler of \<open>X\<close> does), awaiting the dispatch of
  two events of type \<open>X\<close> and then one of type \<open>Y\<close> runs all three wrappers in order
  and returns; the third calls the handler of \<open>Y\<close> with the validated payload, and
  that handler's effects are part of the trace.
\<close>

theorem dispatch_isolation:
  assumes "X \<noteq> Y"
    and "hs' = registerTwitchHandler (registerTwitchHandler hs X hX sX) Y hY sY"
    and "known_tenant db dxa" and "known_tenant db dxb" and "known_tenant db dy"
    and "validate sY dy = Inr p"
  shows "snd (wrapped_handler eventType handler sch data ctx) = Inr ()
       \<and> validate None data = Inr data
       \<and> (\<forall>parse. validate (Some parse) data = parse data)
       \<and> (\<forall>err. validate sch data = Inl err
            \<longrightarrow> wrapped_handler eventType handler sch data ctx
                  = ([Log ''Error in handler for''], Inr ()))
       \<and> (\<forall>q fx err. validate sch data = Inr q \<and> handler q ctx = (fx, Inl err)
            \<longrightarrow> wrapped_handler eventType handler sch data ctx
                  = (HandlerCall eventType q ctx # fx @ [Log ''Error in handler for''],
                     Inr ()))
       \<and> (\<forall>q fx. validate sch data = Inr q \<and> handler q ctx = (fx, Inr ())
            \<longrightarrow> wrapped_handler eventType handler sch data ctx
                  = (HandlerCall eventType q ctx # fx, Inr ()))
       \<and> hs' X = Some (wrapped_handler X hX sX)
       \<and> hs' Y = Some (wrapped_handler Y hY sY)
       \<and> dispatch_all hs' db [(JStr X, dxa), (JStr X, dxb), (JStr Y, dy)]
           = ([DbSelect (extractReceivingBroadcasterId dxa), HandlerLookup (JStr X),
               NewTwitchApi (extractReceivingBroadcasterId dxa)]
                @ fst (wrapped_handler X hX sX dxa
                         \<lparr>twitchApi = extractReceivingBroadcasterId dxa\<rparr>)
              @ [DbSelect (extractReceivingBroadcasterId dxb), HandlerLookup (JStr X),
                 NewTwitchApi (extractReceivingBroadcasterId dxb)]
                @ fst (wrapped_handler X hX sX dxb
                         \<lparr>twitchApi = extractReceivingBroadcasterId dxb\<rparr>)
              @ [DbSelect (extractReceivingBroadcasterId dy), HandlerLookup (JStr Y),
                 NewTwitchApi (extractReceivingBroadcasterId dy)]
                @ fst (wrapped_handler Y hY sY dy
                         \<lparr>twitchApi = extractReceivingBroadcasterId dy\<rparr>),
              Inr ())
       \<and> snd (dispatch_all hs' db [(JStr X, dxa), (JStr X, dxb), (JStr Y, dy)]) = Inr ()
       \<and> HandlerCall Y p \<lparr>twitchApi = extractReceivingBroadcasterId dy\<rparr>
            \<in> set (fst (dispatch_all hs' db [(JStr X, dxa), (JStr X, dxb), (JStr Y, dy)]))
       \<and> set (fst (hY p \<lparr>twitchApi = extractReceivingBroadcasterId dy\<rparr>))
            \<subseteq> set (fst (dispatch_all hs' db [(JStr X, dxa), (JStr X, dxb), (JStr Y, dy)]))"
proof -
  let ?c3 = "\<lparr>twitchApi = extractReceivingBroadcasterId dy\<rparr>"
  have x: "hs' X = Some (wrapped_handler X hX sX)"
    and y: "hs' Y = Some (wrapped_handler Y hY sY)"
    using assms(1,2) by (simp_all add: registerTwitchHandler_def)
  have w1: "snd (wrapped_handler eventType handler sch data ctx) = Inr ()"
    by (rule wrapped_handler_returns)
  have v1: "validate None data = Inr data"
    by (simp add: validate_def)
  have v2: "\<forall>parse. validate (Some parse) data = parse data"
    by (simp add: validate_def)
  have w2: "\<forall>err. validate sch data = Inl err
            \<longrightarrow> wrapped_handler eventType handler sch data ctx
                  = ([Log ''Error in handler for''], Inr ())"
    using wrapped_handler_invalid by blast
  have w3: "\<forall>q fx err. validate sch data = Inr q \<and> handler q ctx = (fx, Inl err)
            \<longrightarrow> wrapped_handler eventType handler sch data ctx
                  = (HandlerCall eventType q ctx # fx @ [Log ''Error in handler for''],
                     Inr ())"
    using wrapped_handler_throws by blast
  have w4: "\<forall>q fx. validate sch data = Inr q \<and> handler q ctx = (fx, Inr ())
            \<longrightarrow> wrapped_handler eventType handler sch data ctx
                  = (HandlerCall eventType q ctx # fx, Inr ())"
    using wrapped_handler_resolves by blast
  have d: "dispatch_all hs' db [(JStr X, dxa), (JStr X, dxb), (JStr Y, dy)]
           = ([DbSelect (extractReceivingBroadcasterId dxa), HandlerLookup (JStr X),
               NewTwitchApi (extractReceivingBroadcasterId dxa)]
                @ fst (wrapped_handler X hX sX dxa
                         \<lparr>twitchApi = extractReceivingBroadcasterId dxa\<rparr>)
              @ [DbSelect (extractReceivingBroadcasterId dxb), HandlerLookup (JStr X),
                 NewTwitchApi (extractReceivingBroadcasterId dxb)]
                @ fst (wrapped_handler X hX sX dxb
                         \<lparr>twitchApi = extractReceivingBroadcasterId dxb\<rparr>)
              @ [DbSelect (extractReceivingBroadcasterId dy), HandlerLookup (JStr Y),
                 NewTwitchApi (extractReceivingBroadcasterId dy)]
                @ fst (wrapped_handler Y hY sY dy ?c3),
              Inr ())"
    using dispatch_all_three
      [OF processTwitchEvent_registered_eq [where hs = hs' and t = X and h = hX and s = sX,
            OF assms(3) x]
          processTwitchEvent_registered_eq [where hs = hs' and t = X and h = hX and s = sX,
            OF assms(4) x]
          processTwitchEvent_registered_eq [where hs = hs' and t = Y and h = hY and s = sY,
            OF assms(5) y]]
    by simp
  have s: "snd (dispatch_all hs' db [(JStr X, dxa), (JStr X, dxb), (JStr Y, dy)]) = Inr ()"
    by (simp only: d snd_conv)
  have i: "set (fst (wrapped_handler Y hY sY dy ?c3))
             \<subseteq> set (fst (dispatch_all hs' db [(JStr X, dxa), (JStr X, dxb), (JStr Y, dy)]))"
    by (simp only: d fst_conv set_append) blast
  have c: "HandlerCall Y p ?c3
             \<in> set (fst (dispatch_all hs' db [(JStr X, dxa), (JStr X, dxb), (JStr Y, dy)]))"
    using wrapped_handler_calls [OF assms(6), of Y ?c3 hY] i by blast
  have e: "set (fst (hY p ?c3))
             \<subseteq> set (fst (dispatch_all hs' db [(JStr X, dxa), (JStr X, dxb), (JStr Y, dy)]))"
    using wrapped_handler_effects [OF assms(6), of hY ?c3 Y] i by (rule subset_trans)
  show ?thesis
    using w1 v1 v2 w2 w3 w4 x y d s c e by (intro conjI)
qed

lemma known_tenant_42: "known_tenant db_only_42 (stream_event ''42'')"
  by (simp add: known_tenant_def extract_stream_event db_only_42_def known_broadcaster_def)

lemma stream_event_valid:
  "validate (Some broadcaster_schema) (stream_event ''42'') = Inr (stream_event ''42'')"
  by (simp add: validate_def broadcaster_schema_def stream_event_def)

lemma raid_event_invalid:
  "validate (Some broadcaster_schema) raid_event = Inl (Error ''ZodError'')"
  by (simp add: validate_def broadcaster_schema_def raid_event_def)

theorem dispatch_isolation_witness:
  "wrapped_handler ''stream.offline'' throwing_handler (Some broadcaster_schema) raid_event
     \<lparr>twitchApi = JStr ''42''\<rparr> = ([Log ''Error in handler for''], Inr ())
   \<and> dispatch_all validated_handlers db_only_42
        [(JStr ''stream.offline'', stream_event ''42''),
         (JStr ''stream.offline'', stream_event ''42''),
         (JStr ''stream.online'', stream_event ''42'')]
      = ([DbSelect (JStr ''42''), HandlerLookup (JStr ''stream.offline''),
          NewTwitchApi (JStr ''42''),
          HandlerCall ''stream.offline'' (stream_event ''42'') \<lparr>twitchApi = JStr ''42''\<rparr>,
          AppEffect ''started'', Log ''Error in handler for'',
          DbSelect (JStr ''42''), HandlerLookup (JStr ''stream.offline''),
          NewTwitchApi (JStr ''42''),
          HandlerCall ''stream.offline'' (stream_event ''42'') \<lparr>twitchApi = JStr ''42''\<rparr>,
          AppEffect ''started'', Log ''Error in handler for'',
          DbSelect (JStr ''42''), HandlerLookup (JStr ''stream.online''),
          NewTwitchApi (JStr ''42''),
          HandlerCall ''stream.online'' (stream_event ''42'') \<lparr>twitchApi = JStr ''42''\<rparr>,
          AppEffect ''done''],
         Inr ())"
proof -
  let ?c = "\<lparr>twitchApi = JStr ''42''\<rparr>"
  have n: "''stream.offline'' \<noteq> ''stream.online''" by simp
  have e: "extractReceivingBroadcasterId (stream_event ''42'') = JStr ''42''"
    by (simp add: extract_stream_event)
  note di = dispatch_isolation [where X = "''stream.offline''" and Y = "''stream.online''"
      and hs = no_handlers and hX = throwing_handler and sX = "Some broadcaster_schema"
      and hY = quiet_handler and sY = "Some broadcaster_schema" and hs' = validated_handlers
      and db = db_only_42 and dxa = "stream_event ''42''" and dxb = "stream_event ''42''"
      and dy = "stream_event ''42''" and p = "stream_event ''42''" and ctx = "?c",
      OF n validated_handlers_def known_tenant_42 known_tenant_42 known_tenant_42
        stream_event_valid]
  have a: "wrapped_handler ''stream.offline'' throwing_handler (Some broadcaster_schema)
             raid_event ?c = ([Log ''Error in handler for''], Inr ())"
    using di [where eventType = "''stream.offline''" and handler = throwing_handler
          and sch = "Some broadcaster_schema" and data = raid_event]
      raid_event_invalid
    by blast
  have t: "throwing_handler (stream_event ''42'') ?c
             = ([AppEffect ''started''], Inl (Error ''boom''))"
    by (simp add: throwing_handler_def)
  have b: "wrapped_handler ''stream.offline'' throwing_handler (Some broadcaster_schema)
             (stream_event ''42'') ?c
           = (HandlerCall ''stream.offline'' (stream_event ''42'') ?c
                # [AppEffect ''started''] @ [Log ''Error in handler for''], Inr ())"
    using di [where eventType = "''stream.offline''" and handler = throwing_handler
          and sch = "Some broadcaster_schema" and data = "stream_event ''42''"]
      stream_event_valid t
    by blast
  have q: "quiet_handler (stream_event ''42'') ?c = ([AppEffect ''done''], Inr ())"
    by (simp add: quiet_handler_def)
  have c: "wrapped_handler ''stream.online'' quiet_handler (Some broadcaster_schema)
             (stream_event ''42'') ?c
           = (HandlerCall ''stream.online'' (stream_event ''42'') ?c # [AppEffect ''done''],
              Inr ())"
    using di [where eventType = "''stream.online''" and handler = quiet_handler
          and sch = "Some broadcaster_schema" and data = "stream_event ''42''"]
      stream_event_valid q
    by blast
  have d: "dispatch_all validated_handlers db_only_42
        [(JStr ''stream.offline'', stream_event ''42''),
         (JStr ''stream.offline'', stream_event ''42''),
         (JStr ''stream.online'', stream_event ''42'')]
      = ([DbSelect (JStr ''42''), HandlerLookup (JStr ''stream.offline''),
          NewTwitchApi (JStr ''42'')]
           @ fst (wrapped_handler ''stream.offline'' throwing_handler
                    (Some broadcaster_schema) (stream_event ''42'') ?c)
         @ [DbSelect (JStr ''42''), HandlerLookup (JStr ''stream.offline''),
            NewTwitchApi (JStr ''42'')]
           @ fst (wrapped_handler ''stream.offline'' throwing_handler
                    (Some broadcaster_schema) (stream_event ''42'') ?c)
         @ [DbSelect (JStr ''42''), HandlerLookup (JStr ''stream.online''),
            NewTwitchApi (JStr ''42'')]
           @ fst (wrapped_handler ''stream.online'' quiet_handler
                    (Some broadcaster_schema) (stream_event ''42'') ?c),
         Inr ())"
    using di [where eventType = "''stream.online''" and handler = quiet_handler
          and sch = "Some broadcaster_schema" and data = "stream_event ''42''"]
    by (simp only: e)
  show ?thesis
    unfolding d b c using a by simp
qed

section \<open>Receiver: properties\<close>

lemma reconnect_timers_append:
  "reconnect_timers (xs @ ys) = reconnect_timers xs @ reconnect_timers ys"
  by (induction xs rule: reconnect_timers.induct) simp_all

lemma keepalive_timers_append:
  "keepalive_timers (xs @ ys) = keepalive_timers xs @ keepalive_timers ys"
  by (induction xs rule: keepalive_timers.induct) simp_all

lemma socket_closes_append:
  "socket_closes (xs @ ys) = socket_closes xs @ socket_closes ys"
  by (induction xs rule: socket_closes.induct) simp_all

lemma cleanup_fields:
  "reconnectUrl (cleanup r) = reconnectUrl r"
  "reconnectAttempts (cleanup r) = reconnectAttempts r"
  "baseReconnectDelay (cleanup r) = baseReconnectDelay r"
  "maxReconnectDelay (cleanup r) = maxReconnectDelay r"
  "connectionState (cleanup r) = connectionState r"
  "reconnect_timers (trace (cleanup r)) = reconnect_timers (trace r)"
  by (simp_all add: cleanup_def emit_def Let_def reconnect_timers_append
        split: option.splits)

lemma getReconnectDelay_cong:
  "reconnectAttempts a = reconnectAttempts b \<Longrightarrow>
   baseReconnectDelay a = baseReconnectDelay b \<Longrightarrow>
   maxReconnectDelay a = maxReconnectDelay b \<Longrightarrow>
   getReconnectDelay a rnd = getReconnectDelay b rnd"
  by (simp add: getReconnectDelay_def)

lemma scheduleReconnect_fields:
  "reconnectUrl (scheduleReconnect r rnd) = reconnectUrl r"
  "connectionState (scheduleReconnect r rnd) = connectionState r"
  "reconnect_timers (trace (scheduleReconnect r rnd))
     = reconnect_timers (trace r) @ [getReconnectDelay r rnd]"
  by (simp_all add: scheduleReconnect_def emit_def Let_def reconnect_timers_append)

text \<open>
  Claim C4, as the code has it: with \<open>rnd\<close> in \<open>[0, 1)\<close> the delay lies in
  \<open>[m, m + 1000]\<close> for \<open>m = min (base * 2 ^ attempt) cap\<close>; so it never exceeds
  \<open>base * 2 ^ attempt + 1000\<close> nor \<open>cap + 1000\<close>. The bounds are the closed ones,
  which the sum keeps when it is rounded.
\<close>

theorem getReconnectDelay_bounds:
  assumes "0 \<le> rnd" and "rnd < 1"
  shows "min (baseReconnectDelay r * 2 ^ reconnectAttempts r) (maxReconnectDelay r)
           \<le> getReconnectDelay r rnd
       \<and> getReconnectDelay r rnd
           \<le> min (baseReconnectDelay r * 2 ^ reconnectAttempts r) (maxReconnectDelay r) + 1000
       \<and> getReconnectDelay r rnd \<le> baseReconnectDelay r * 2 ^ reconnectAttempts r + 1000
       \<and> getReconnectDelay r rnd \<le> maxReconnectDelay r + 1000"
  using assms by (auto simp add: getReconnectDelay_def Let_def min_def)

theorem getReconnectDelay_bounds_witness:
  "(0::real) \<le> 1 / 2 \<and> (1 / 2 :: real) < 1
   \<and> getReconnectDelay (initial_receiver\<lparr>reconnectAttempts := 5\<rparr>) (1 / 2) = 30500
   \<and> min (baseReconnectDelay (initial_receiver\<lparr>reconnectAttempts := 5\<rparr>)
            * 2 ^ reconnectAttempts (initial_receiver\<lparr>reconnectAttempts := 5\<rparr>))
          (maxReconnectDelay (initial_receiver\<lparr>reconnectAttempts := 5\<rparr>))
        \<le> getReconnectDelay (initial_receiver\<lparr>reconnectAttempts := 5\<rparr>) (1 / 2)
   \<and> getReconnectDelay (initial_receiver\<lparr>reconnectAttempts := 5\<rparr>) (1 / 2)
        \<le> maxReconnectDelay (initial_receiver\<lparr>reconnectAttempts := 5\<rparr>) + 1000"
  using getReconnectDelay_bounds [of "1 / 2" "initial_receiver\<lparr>reconnectAttempts := 5\<rparr>"]
  by (simp add: getReconnectDelay_def initial_receiver_def)

text \<open>
  Claim C4 as stated fails once \<open>base * 2 ^ attempt\<close> passes the cap: with the default
  base 1000 and cap 30000, attempt 5 and no jitter, the delay is 30000, below
  \<open>1000 * 2 ^ 5 = 32000\<close>.
\<close>

theorem getReconnectDelay_lower_bound_counterexample:
  "getReconnectDelay (initial_receiver\<lparr>reconnectAttempts := 5\<rparr>) 0
     < baseReconnectDelay (initial_receiver\<lparr>reconnectAttempts := 5\<rparr>)
         * 2 ^ reconnectAttempts (initial_receiver\<lparr>reconnectAttempts := 5\<rparr>)"
  by (simp add: getReconnectDelay_def initial_receiver_def)


lemma handleClose_state: "connectionState (handleClose r c rnd) = Disconnected"
  by (simp add: handleClose_def Let_def cleanup_fields scheduleReconnect_fields emit_def)

lemma handleClose_url:
  "reconnectUrl (handleClose r c rnd) = (if c = 4003 \<or> c = 4007 then None else reconnectUrl r)"
  by (simp add: handleClose_def Let_def cleanup_fields scheduleReconnect_fields emit_def)

lemma cleanup_emit_delay:
  "getReconnectDelay ((emit fx (cleanup (emit fx' (r\<lparr>connectionState := st\<rparr>))))) rnd
     = getReconnectDelay r rnd"
  "getReconnectDelay ((emit fx (cleanup (emit fx' (r\<lparr>connectionState := st\<rparr>))))
                        \<lparr>reconnectUrl := None\<rparr>) rnd
     = getReconnectDelay r rnd"
  by (rule getReconnectDelay_cong; simp add: emit_def cleanup_fields)+

lemma cleanup_emit_url_known:
  "url_known (emit fx (cleanup (emit fx' (r\<lparr>connectionState := st\<rparr>)))) = url_known r"
  by (simp add: url_known_def emit_def cleanup_fields)

lemma cleanup_emit_timers:
  "reconnect_timers (trace (cleanup (emit [RxLog m] (r\<lparr>connectionState := st\<rparr>))))
     = reconnect_timers (trace r)"
  by (simp add: cleanup_fields emit_def reconnect_timers_append)

lemma handleClose_timers:
  "reconnect_timers (trace (handleClose r c rnd)) =
     reconnect_timers (trace r)
       @ (if c = 4001 \<or> (c = 1000 \<and> \<not> url_known r) then [] else [getReconnectDelay r rnd])"
proof -
  let ?r1 = "cleanup (emit [RxLog ''WebSocket closed''] (r\<lparr>connectionState := Disconnected\<rparr>))"
  have t: "reconnect_timers (trace ?r1) = reconnect_timers (trace r)"
    by (rule cleanup_emit_timers)
  have e: "\<And>m. reconnect_timers (trace (emit [RxLog m] ?r1)) = reconnect_timers (trace r)"
    using t by (simp add: emit_def reconnect_timers_append)
  have e': "\<And>m. reconnect_timers (trace ((emit [RxLog m] ?r1)\<lparr>reconnectUrl := None\<rparr>))
              = reconnect_timers (trace r)"
    using t by (simp add: emit_def reconnect_timers_append)
  have u: "\<And>fx. url_known (emit fx ?r1) = url_known r"
    by (rule cleanup_emit_url_known)
  have u1: "url_known ?r1 = url_known r"
    by (simp add: url_known_def cleanup_fields emit_def)
  have d: "\<And>fx. getReconnectDelay (emit fx ?r1) rnd = getReconnectDelay r rnd"
    "\<And>fx. getReconnectDelay ((emit fx ?r1)\<lparr>reconnectUrl := None\<rparr>) rnd = getReconnectDelay r rnd"
    by (rule cleanup_emit_delay)+
  show ?thesis
    unfolding handleClose_def Let_def
    by (simp add: scheduleReconnect_fields e e' u u1 d)
qed

lemma connect_opens:
  assumes "connectionState r = Reconnecting" and "ctor (wsUrl r)"
  shows "map_option url (ws (fst (connect ctor r))) = Some (wsUrl r)"
  using assms
  by (simp add: connect_def Let_def cleanup_def emit_def setupEventHandlers_def new_WebSocket_def
      split: option.splits)

lemma reconnect_opens:
  assumes "connectionState r = Disconnected"
    and "reconnectAttempts r < maxReconnectAttempts r"
    and "ctor (best_url r)"
  shows "map_option url (ws (fst (reconnect ctor r rnd))) = Some (best_url r)"
proof (cases "url_known r")
  case True
  then obtain u where u: "reconnectUrl r = Some u" "u \<noteq> []"
    by (auto simp add: url_known_def split: option.splits)
  with assms show ?thesis
    by (simp add: reconnect_def Let_def best_url_def setupEventHandlers_def
        new_WebSocket_def)
next
  case False
  then have b: "best_url r = wsUrl r"
    by (auto simp add: url_known_def best_url_def split: option.splits)
  let ?r1 = "r\<lparr>connectionState := Reconnecting, reconnectAttempts := reconnectAttempts r + 1\<rparr>"
  have c: "map_option url (ws (fst (connect ctor ?r1))) = Some (wsUrl ?r1)"
    using assms(3) b by (intro connect_opens) simp_all
  from False have "reconnect ctor r rnd = connect ctor ?r1"
    using assms(1,2)
    by (auto simp add: reconnect_def Let_def url_known_def split: option.splits)
  with c b show ?thesis by simp
qed

lemma handleClose_attempts:
  "reconnectAttempts (handleClose r c rnd) = reconnectAttempts r"
  "maxReconnectAttempts (handleClose r c rnd) = maxReconnectAttempts r"
  by (simp_all add: handleClose_def Let_def cleanup_def emit_def scheduleReconnect_def
      split: option.splits)

text \<open>
  Claim C5: after \<^verbatim>\<open>handleClose\<close> the state is disconnected; code 4001 sets no
  reconnect timer; codes 4003 and 4007 clear the stored reconnect URL and set one; code
  1000 sets one exactly when a reconnect URL is known; every other code sets one and
  keeps the stored URL. When the timer fires (and attempts remain), \<^verbatim>\<open>reconnect\<close>
  opens the stored reconnect URL if one is known and the configured URL otherwise.
\<close>

theorem handleClose_policy:
  "connectionState (handleClose r c rnd) = Disconnected
   \<and> reconnectUrl (handleClose r c rnd)
        = (if c = 4003 \<or> c = 4007 then None else reconnectUrl r)
   \<and> reconnect_timers (trace (handleClose r c rnd))
        = reconnect_timers (trace r)
            @ (if c = 4001 \<or> (c = 1000 \<and> \<not> url_known r) then []
               else [getReconnectDelay r rnd])
   \<and> (reconnectAttempts r < maxReconnectAttempts r
        \<and> ctor (best_url (handleClose r c rnd))
      \<longrightarrow> map_option url (ws (fst (reconnect ctor (handleClose r c rnd) rnd')))
            = Some (best_url (handleClose r c rnd)))"
  using handleClose_state [of r c rnd] handleClose_url [of r c rnd]
    handleClose_timers [of r c rnd]
    reconnect_opens [of "handleClose r c rnd" ctor rnd'] handleClose_attempts [of r c rnd]
  by (simp only: simp_thms) blast

theorem handleClose_policy_witness:
  "reconnect_timers (trace (handleClose resuming_receiver 4001 (1 / 2))) = []
   \<and> reconnectUrl (handleClose resuming_receiver 4003 (1 / 2)) = None
   \<and> reconnect_timers (trace (handleClose resuming_receiver 4007 (1 / 2))) = [8500]
   \<and> reconnect_timers (trace (handleClose resuming_receiver 1000 (1 / 2))) = [8500]
   \<and> reconnect_timers (trace (handleClose initial_receiver 1000 (1 / 2))) = []
   \<and> reconnect_timers (trace (handleClose initial_receiver 4002 (1 / 2))) = [1500]
   \<and> reconnectAttempts resuming_receiver < maxReconnectAttempts resuming_receiver
   \<and> accept_all (best_url (handleClose resuming_receiver 4004 (1 / 2)))
   \<and> map_option url
        (ws (fst (reconnect accept_all (handleClose resuming_receiver 4004 (1 / 2)) 0)))
        = Some ''wss://eventsub.wss.twitch.tv/ws?resume=1''"
proof -
  have k: "url_known resuming_receiver" "\<not> url_known initial_receiver"
    by (simp_all add: url_known_def resuming_receiver_def initial_receiver_def)
  have d: "getReconnectDelay resuming_receiver (1 / 2) = 8500"
    "getReconnectDelay initial_receiver (1 / 2) = 1500"
    by (simp_all add: getReconnectDelay_def resuming_receiver_def initial_receiver_def)
  have t: "trace resuming_receiver = []" "trace initial_receiver = []"
    by (simp_all add: resuming_receiver_def initial_receiver_def)
  have a: "reconnectAttempts resuming_receiver < maxReconnectAttempts resuming_receiver"
    by (simp add: resuming_receiver_def initial_receiver_def)
  have b: "best_url (handleClose resuming_receiver 4004 (1 / 2))
             = ''wss://eventsub.wss.twitch.tv/ws?resume=1''"
    using handleClose_policy [of resuming_receiver 4004 "1 / 2" accept_all 0]
    by (simp add: best_url_def resuming_receiver_def)
  show ?thesis
    using handleClose_policy [of resuming_receiver 4001 "1 / 2" accept_all 0]
      handleClose_policy [of resuming_receiver 4003 "1 / 2" accept_all 0]
      handleClose_policy [of resuming_receiver 4007 "1 / 2" accept_all 0]
      handleClose_policy [of resuming_receiver 1000 "1 / 2" accept_all 0]
      handleClose_policy [of initial_receiver 1000 "1 / 2" accept_all 0]
      handleClose_policy [of initial_receiver 4002 "1 / 2" accept_all 0]
      handleClose_policy [of resuming_receiver 4004 "1 / 2" accept_all 0]
      k d t a b
    by (simp add: accept_all_def)
qed


lemma startKeepaliveTimer_arms:
  "keepaliveTimer (startKeepaliveTimer r t) = Some ((t + 2) * 1000)
   \<and> keepaliveInterval (startKeepaliveTimer r t) = t
   \<and> keepalive_timers (trace (startKeepaliveTimer r t))
        = keepalive_timers (trace r) @ [(t + 2) * 1000]"
  by (simp add: startKeepaliveTimer_def Let_def emit_def keepalive_timers_append
      split: option.splits)

lemma ws_close_fields:
  "missedKeepalives (ws_close r) = missedKeepalives r"
  "keepalive_timers (trace (ws_close r)) = keepalive_timers (trace r)"
  "keepaliveTimer (ws_close r) = keepaliveTimer r"
  "socket_closes (trace (ws_close r))
     = socket_closes (trace r)
         @ (case ws r of
              None \<Rightarrow> []
            | Some s \<Rightarrow> if readyState s = OPEN \<or> readyState s = CONNECTING then [url s] else [])"
  by (simp_all add: ws_close_def emit_def keepalive_timers_append socket_closes_append
      split: option.splits)

text \<open>The comparison \<^verbatim>\<open>checkKeepalive\<close> makes, and the ceiling test after a miss.\<close>

lemma checkKeepalive_missed:
  "missedKeepalives (checkKeepalive r now)
     = (if now - lastKeepaliveTime r > keepaliveInterval r * 1000 + 2000
        then missedKeepalives r + 1 else missedKeepalives r)"
  by (simp add: checkKeepalive_def Let_def emit_def ws_close_fields)

lemma checkKeepalive_timers:
  "keepalive_timers (trace (checkKeepalive r now))
     = keepalive_timers (trace r)
         @ (if now - lastKeepaliveTime r > keepaliveInterval r * 1000 + 2000
               \<and> missedKeepalives r + 1 \<ge> maxMissedKeepalives r
            then [] else [keepaliveInterval r * 1000])"
  by (simp add: checkKeepalive_def Let_def emit_def ws_close_fields keepalive_timers_append)

lemma checkKeepalive_closes:
  "socket_closes (trace (checkKeepalive r now))
     = socket_closes (trace r)
         @ (if now - lastKeepaliveTime r > keepaliveInterval r * 1000 + 2000
               \<and> missedKeepalives r + 1 \<ge> maxMissedKeepalives r
            then (case ws r of
                    None \<Rightarrow> []
                  | Some s \<Rightarrow>
                      if readyState s = OPEN \<or> readyState s = CONNECTING then [url s] else [])
            else [])"
  by (simp add: checkKeepalive_def Let_def emit_def ws_close_fields socket_closes_append)

text \<open>
  Claim C6, as the code has it: \<^verbatim>\<open>startKeepaliveTimer\<close> arms the first check
  \<open>(timeoutSeconds + 2) * 1000\<close> ms ahead; each check counts a miss exactly when
  \<open>now - lastKeepaliveTime > keepaliveInterval * 1000 + 2000\<close>, adding one to
  \<open>missedKeepalives\<close>; a miss that brings the counter to \<open>maxMissedKeepalives\<close>
  closes the socket (when one is open or connecting) and arms no further check; every
  other check arms the next one \<open>keepaliveInterval * 1000\<close> ms ahead, without the two
  extra seconds.
\<close>

theorem keepalive_monitor:
  "keepaliveTimer (startKeepaliveTimer r t) = Some ((t + 2) * 1000)
   \<and> keepalive_timers (trace (startKeepaliveTimer r t))
        = keepalive_timers (trace r) @ [(t + 2) * 1000]
   \<and> missedKeepalives (checkKeepalive r now)
        = (if now - lastKeepaliveTime r > keepaliveInterval r * 1000 + 2000
           then missedKeepalives r + 1 else missedKeepalives r)
   \<and> keepalive_timers (trace (checkKeepalive r now))
        = keepalive_timers (trace r)
            @ (if now - lastKeepaliveTime r > keepaliveInterval r * 1000 + 2000
                  \<and> missedKeepalives r + 1 \<ge> maxMissedKeepalives r
               then [] else [keepaliveInterval r * 1000])
   \<and> socket_closes (trace (checkKeepalive r now))
        = socket_closes (trace r)
            @ (if now - lastKeepaliveTime r > keepaliveInterval r * 1000 + 2000
                  \<and> missedKeepalives r + 1 \<ge> maxMissedKeepalives r
               then (case ws r of
                       None \<Rightarrow> []
                     | Some s \<Rightarrow>
                         if readyState s = OPEN \<or> readyState s = CONNECTING
                         then [url s] else [])
               else [])"
  using startKeepaliveTimer_arms [of r t] checkKeepalive_missed [of r now]
    checkKeepalive_timers [of r now] checkKeepalive_closes [of r now]
  by (simp only: simp_thms)

lemma welcomed_fields:
  "keepaliveInterval welcomed_receiver = 10" "lastKeepaliveTime welcomed_receiver = 0"
  "missedKeepalives welcomed_receiver = 0" "maxMissedKeepalives welcomed_receiver = 2"
  "trace welcomed_receiver = [SetTimeout CheckKeepalive 12000]"
  "ws welcomed_receiver = Some \<lparr>url = ''wss://eventsub.wss.twitch.tv/ws'',
                                 readyState = OPEN, handlers_attached = True\<rparr>"
  by (simp_all add: welcomed_receiver_def initial_receiver_def startKeepaliveTimer_def
      emit_def Let_def)

theorem keepalive_monitor_witness:
  "keepalive_timers (trace welcomed_receiver) = [12000]
   \<and> missedKeepalives (checkKeepalive welcomed_receiver 12000) = 0
   \<and> missedKeepalives (checkKeepalive welcomed_receiver 12001) = 1
   \<and> keepalive_timers (trace (checkKeepalive welcomed_receiver 12001)) = [12000, 10000]
   \<and> socket_closes (trace (checkKeepalive welcomed_receiver 12001)) = []
   \<and> socket_closes
        (trace (checkKeepalive (welcomed_receiver\<lparr>missedKeepalives := 1\<rparr>) 22001))
        = [''wss://eventsub.wss.twitch.tv/ws'']
   \<and> keepalive_timers
        (trace (checkKeepalive (welcomed_receiver\<lparr>missedKeepalives := 1\<rparr>) 22001))
        = [12000]"
  using keepalive_monitor [where r = welcomed_receiver and t = 10 and now = 12000]
    keepalive_monitor [where r = welcomed_receiver and t = 10 and now = 12001]
    keepalive_monitor [where r = "welcomed_receiver\<lparr>missedKeepalives := 1\<rparr>"
      and t = 10 and now = 22001]
  by (simp add: welcomed_fields)

text \<open>
  Claim C6 as stated (every check runs \<open>intervalSeconds + 2\<close> seconds after the
  previous one) fails at the first re-arm: with a keepalive timeout of 10 seconds the
  first check is armed 12000 ms ahead and the one after it 10000 ms ahead.
\<close>

theorem keepalive_recheck_counterexample:
  "keepaliveInterval welcomed_receiver = 10
   \<and> keepalive_timers (trace (checkKeepalive welcomed_receiver 12000)) = [12000, 10000]
   \<and> keepaliveTimer (checkKeepalive welcomed_receiver 12000)
        \<noteq> Some ((keepaliveInterval welcomed_receiver + 2) * 1000)"
  by (simp add: checkKeepalive_def Let_def emit_def welcomed_fields)

text \<open>
  The two paths of \<^verbatim>\<open>reconnect\<close>. With no reconnect URL it goes through
  \<^verbatim>\<open>connect\<close>: the counter keeps its incremented value and the state is
  \<open>Connecting\<close> until \<open>onopen\<close> resets both. With a reconnect URL it resets both
  itself, as soon as the socket is constructed.
\<close>

lemma reconnect_fresh_keeps_count:
  assumes "connectionState r = Disconnected \<or> connectionState r = Connected"
    and "reconnectAttempts r < maxReconnectAttempts r"
    and "\<not> url_known r" and "ctor (wsUrl r)"
  shows "reconnectAttempts (fst (reconnect ctor r rnd)) = reconnectAttempts r + 1
       \<and> connectionState (fst (reconnect ctor r rnd)) = Connecting"
  using assms
  by (auto simp add: reconnect_def connect_def Let_def url_known_def cleanup_def emit_def
      setupEventHandlers_def new_WebSocket_def split: option.splits)

lemma onopen_resets:
  "reconnectAttempts (onopen r) = 0 \<and> connectionState (onopen r) = Connected"
  by (simp add: onopen_def emit_def)

lemma reconnect_url_resets_early:
  assumes "connectionState r = Disconnected \<or> connectionState r = Connected"
    and "reconnectAttempts r < maxReconnectAttempts r"
    and "reconnectUrl r = Some u" and "u \<noteq> []" and "ctor u"
  shows "reconnectAttempts (fst (reconnect ctor r rnd)) = 0
       \<and> connectionState (fst (reconnect ctor r rnd)) = Connected
       \<and> map_option readyState (ws (fst (reconnect ctor r rnd))) = Some CONNECTING"
  using assms
  by (auto simp add: reconnect_def Let_def setupEventHandlers_def new_WebSocket_def)

text \<open>
  Claim C7 at a failing input: three attempts made, a reconnect URL stored. The call
  of \<^verbatim>\<open>reconnect\<close> returns with the counter at 0 and the state \<open>Connected\<close> while the
  new socket is still CONNECTING: no open event has fired.
\<close>

theorem reconnect_resets_before_open:
  "reconnectAttempts resuming_receiver = 3
   \<and> reconnectAttempts (fst (reconnect accept_all resuming_receiver 0)) = 0
   \<and> connectionState (fst (reconnect accept_all resuming_receiver 0)) = Connected
   \<and> map_option readyState (ws (fst (reconnect accept_all resuming_receiver 0)))
        = Some CONNECTING"
  by (simp add: reconnect_def Let_def setupEventHandlers_def new_WebSocket_def
      resuming_receiver_def initial_receiver_def accept_all_def cleanup_def emit_def)

section \<open>API client: properties\<close>

declare clientApi.simps [simp del]

lemma clientApi_counts:
  "clientApi env c0 = (c, res) \<Longrightarrow>
     refreshes c + currentRetryCount c0 = refreshes c0 + currentRetryCount c
   \<and> exchanges c + refreshes c0 \<le> exchanges c0 + refreshes c + 1
   \<and> currentRetryCount c0 \<le> currentRetryCount c
   \<and> (currentRetryCount c0 \<le> MAX_RETRIES \<longrightarrow> currentRetryCount c \<le> MAX_RETRIES)"
proof (induction env c0 arbitrary: c res rule: clientApi.induct)
  case (1 env c0)
  show ?case
  proof (cases "has_broadcaster env")
    case False
    with "1.prems" show ?thesis by (simp add: clientApi.simps [of env c0])
  next
    case hb: True
    show ?thesis
    proof (cases "getChannelAccessToken env (token_reads c0)")
      case (Inl e)
      with hb "1.prems" show ?thesis
        by (auto simp add: clientApi.simps [of env c0] currentRetryCount_def)
    next
      case (Inr token)
      let ?c1 = "c0\<lparr>token_reads := token_reads c0 + 1, exchanges := exchanges c0 + 1\<rparr>"
      show ?thesis
      proof (cases "exchange env (exchanges c0) (''Bearer '' @ token)")
        case (Response st)
        with hb Inr "1.prems" show ?thesis
          by (auto simp add: clientApi.simps [of env c0] currentRetryCount_def)
      next
        case (AxiosError has_config statusCode)
        let ?c2 = "?c1\<lparr>retryCount := Some (currentRetryCount ?c1 + 1),
                         refreshes := refreshes ?c1 + 1\<rparr>"
        show ?thesis
        proof (cases "has_config \<and> statusCode = Some 401 \<and> currentRetryCount ?c1 < MAX_RETRIES
                      \<and> (\<exists>t. refreshUserToken env (refreshes ?c1) = Inr (Some t) \<and> t \<noteq> [])")
          case True
          then obtain t where t: "refreshUserToken env (refreshes ?c1) = Inr (Some t)" "t \<noteq> []"
            by blast
          from True have rec: "clientApi env c0 = clientApi env ?c2"
            using hb Inr AxiosError t
            by (simp add: clientApi.simps [of env c0] Let_def)
          with "1.prems" have p: "clientApi env ?c2 = (c, res)" by simp
          have ih:
            "refreshes c + currentRetryCount ?c2 = refreshes ?c2 + currentRetryCount c
             \<and> exchanges c + refreshes ?c2 \<le> exchanges ?c2 + refreshes c + 1
             \<and> currentRetryCount ?c2 \<le> currentRetryCount c
             \<and> (currentRetryCount ?c2 \<le> MAX_RETRIES \<longrightarrow> currentRetryCount c \<le> MAX_RETRIES)"
            using True t hb Inr AxiosError p
              "1.IH" [of token ?c1 has_config statusCode ?c2 "Some t" t c res]
            by simp
          from True have lt: "currentRetryCount c0 < MAX_RETRIES"
            by (simp add: currentRetryCount_def)
          have k: "currentRetryCount ?c2 = currentRetryCount c0 + 1"
            by (simp add: currentRetryCount_def)
          from ih k lt show ?thesis by auto
        next
          case False
          with hb Inr AxiosError "1.prems" show ?thesis
            by (auto simp add: clientApi.simps [of env c0] Let_def currentRetryCount_def
                split: if_splits sum.splits option.splits)
        qed
      qed
    qed
  qed
qed


lemma clientApi_retry_step:
  assumes "has_broadcaster env"
    and "getChannelAccessToken env (token_reads c) = Inr tok"
    and "exchange env (exchanges c) (''Bearer '' @ tok) = AxiosError True (Some 401)"
    and "currentRetryCount c < MAX_RETRIES"
    and "refreshUserToken env (refreshes c) = Inr (Some t)" and "t \<noteq> []"
  shows "clientApi env c =
           clientApi env
             (c\<lparr>token_reads := Suc (token_reads c), exchanges := Suc (exchanges c),
                retryCount := Some (Suc (currentRetryCount c)),
                refreshes := Suc (refreshes c)\<rparr>)"
  using assms
  by (simp add: clientApi.simps [of env c] Let_def currentRetryCount_def)

lemma clientApi_give_up:
  assumes "has_broadcaster env"
    and "getChannelAccessToken env (token_reads c) = Inr tok"
    and "exchange env (exchanges c) (''Bearer '' @ tok) = AxiosError True (Some 401)"
    and "\<not> currentRetryCount c < MAX_RETRIES"
  shows "clientApi env c =
           (c\<lparr>token_reads := Suc (token_reads c), exchanges := Suc (exchanges c)\<rparr>,
            Inl (Rejected (Some 401)))"
  using assms
  by (simp add: clientApi.simps [of env c] Let_def currentRetryCount_def)

lemma clientApi_persistent_401:
  assumes hb: "has_broadcaster env"
    and tok: "\<forall>n<3. \<exists>tok. getChannelAccessToken env n = Inr tok"
    and ex: "\<forall>n<3. \<forall>auth. exchange env n auth = AxiosError True (Some 401)"
    and rf: "\<forall>n<2. \<exists>t. refreshUserToken env n = Inr (Some t) \<and> t \<noteq> []"
  shows "clientApi env new_call =
           (\<lparr>retryCount = Some 2, token_reads = 3, exchanges = 3, refreshes = 2\<rparr>,
            Inl (Rejected (Some 401)))"
proof -
  from tok have "\<exists>tok. getChannelAccessToken env 0 = Inr tok"
    "\<exists>tok. getChannelAccessToken env (Suc 0) = Inr tok"
    "\<exists>tok. getChannelAccessToken env (Suc (Suc 0)) = Inr tok"
    by simp_all
  then obtain k0 k1 k2 where
    k: "getChannelAccessToken env 0 = Inr k0" "getChannelAccessToken env (Suc 0) = Inr k1"
       "getChannelAccessToken env (Suc (Suc 0)) = Inr k2"
    by blast
  from rf have "\<exists>t. refreshUserToken env 0 = Inr (Some t) \<and> t \<noteq> []"
    "\<exists>t. refreshUserToken env (Suc 0) = Inr (Some t) \<and> t \<noteq> []"
    by simp_all
  then obtain t0 t1 where
    t: "refreshUserToken env 0 = Inr (Some t0)" "t0 \<noteq> []"
       "refreshUserToken env (Suc 0) = Inr (Some t1)" "t1 \<noteq> []"
    by blast
  from ex have
    e: "\<forall>auth. exchange env 0 auth = AxiosError True (Some 401)"
       "\<forall>auth. exchange env (Suc 0) auth = AxiosError True (Some 401)"
       "\<forall>auth. exchange env (Suc (Suc 0)) auth = AxiosError True (Some 401)"
    by simp_all
  let ?c0 = "\<lparr>retryCount = None, token_reads = 0, exchanges = 0, refreshes = 0\<rparr>"
  let ?c1 = "\<lparr>retryCount = Some (Suc 0), token_reads = Suc 0, exchanges = Suc 0,
              refreshes = Suc 0\<rparr>"
  let ?c2 = "\<lparr>retryCount = Some (Suc (Suc 0)), token_reads = Suc (Suc 0),
              exchanges = Suc (Suc 0), refreshes = Suc (Suc 0)\<rparr>"
  have s1: "clientApi env ?c0 = clientApi env ?c1"
    using clientApi_retry_step [of env ?c0 k0 t0] hb k(1) t(1,2) e(1)
    by (simp add: currentRetryCount_def MAX_RETRIES_def)
  have s2: "clientApi env ?c1 = clientApi env ?c2"
    using clientApi_retry_step [of env ?c1 k1 t1] hb k(2) t(3,4) e(2)
    by (simp add: currentRetryCount_def MAX_RETRIES_def)
  have s3: "clientApi env ?c2 =
              (\<lparr>retryCount = Some (Suc (Suc 0)), token_reads = Suc (Suc (Suc 0)),
                exchanges = Suc (Suc (Suc 0)), refreshes = Suc (Suc 0)\<rparr>,
               Inl (Rejected (Some 401)))"
    using clientApi_give_up [of env ?c2 k2] hb k(3) e(3)
    by (simp add: currentRetryCount_def MAX_RETRIES_def)
  show ?thesis
    unfolding new_call_def s1 s2 s3 by (simp add: numeral_2_eq_2 numeral_3_eq_3)
qed

lemma always_401_facts:
  "has_broadcaster always_401"
  "\<forall>n<3. \<exists>tok. getChannelAccessToken always_401 n = Inr tok"
  "\<forall>n<3. \<forall>auth. exchange always_401 n auth = AxiosError True (Some 401)"
  "\<forall>n<2. \<exists>t. refreshUserToken always_401 n = Inr (Some t) \<and> t \<noteq> []"
  by (simp_all add: always_401_def has_broadcaster_def)

lemma clientApi_refresh_throws:
  assumes "has_broadcaster env"
    and "getChannelAccessToken env (token_reads c) = Inr tok"
    and "exchange env (exchanges c) (''Bearer '' @ tok) = AxiosError True (Some 401)"
    and "currentRetryCount c < MAX_RETRIES"
    and "refreshUserToken env (refreshes c) = Inl err"
  shows "clientApi env c =
           (c\<lparr>token_reads := Suc (token_reads c), exchanges := Suc (exchanges c),
              retryCount := Some (Suc (currentRetryCount c)),
              refreshes := Suc (refreshes c)\<rparr>,
            Inl (Thrown err))"
  using assms
  by (simp add: clientApi.simps [of env c] Let_def currentRetryCount_def)

lemma clientApi_refresh_empty:
  assumes "has_broadcaster env"
    and "getChannelAccessToken env (token_reads c) = Inr tok"
    and "exchange env (exchanges c) (''Bearer '' @ tok) = AxiosError True (Some 401)"
    and "currentRetryCount c < MAX_RETRIES"
    and "refreshUserToken env (refreshes c) = Inr None
         \<or> refreshUserToken env (refreshes c) = Inr (Some [])"
  shows "clientApi env c =
           (c\<lparr>token_reads := Suc (token_reads c), exchanges := Suc (exchanges c),
              retryCount := Some (Suc (currentRetryCount c)),
              refreshes := Suc (refreshes c)\<rparr>,
            Inl (Rejected (Some 401)))"
  using assms
  by (auto simp add: clientApi.simps [of env c] Let_def currentRetryCount_def)

lemma clientApi_other_error:
  assumes "has_broadcaster env"
    and "getChannelAccessToken env (token_reads c) = Inr tok"
    and "exchange env (exchanges c) (''Bearer '' @ tok) = AxiosError has_config statusCode"
    and "\<not> (has_config \<and> statusCode = Some 401 \<and> currentRetryCount c < MAX_RETRIES)"
  shows "clientApi env c =
           (c\<lparr>token_reads := Suc (token_reads c), exchanges := Suc (exchanges c)\<rparr>,
            Inl (Rejected statusCode))"
  using assms
  by (auto simp add: clientApi.simps [of env c] Let_def currentRetryCount_def)

lemma clientApi_success:
  assumes "has_broadcaster env"
    and "getChannelAccessToken env (token_reads c) = Inr tok"
    and "exchange env (exchanges c) (''Bearer '' @ tok) = Response st"
  shows "clientApi env c =
           (c\<lparr>token_reads := Suc (token_reads c), exchanges := Suc (exchanges c)\<rparr>, Inr st)"
  using assms
  by (simp add: clientApi.simps [of env c] Let_def)

text \<open>
  Claim C3, as the code has it: the retry count lives in the config of the call
  (absent, read as 0, in a new call) and \<open>MAX_RETRIES\<close> is 2. One outbound call makes
  at most two token refreshes and at most one more exchange than refreshes. When the
  first three exchanges answer 401 and both refreshes give a token, the call refreshes
  twice, sends the request three times, and rejects with the third 401. At every
  attempt of a call: a 401 received while the count is below 2 raises the count and
  refreshes the token once; if the refresh throws, that error is propagated, and if it
  gives no token, the 401 is, in both cases with no further exchange; if it gives a
  token, the request is sent again; any other error, and a 401 once the count is 2,
  is propagated with no refresh and no further exchange; a response is returned.
\<close>

theorem clientApi_retries_bounded:
  "refreshes (fst (clientApi env new_call)) \<le> MAX_RETRIES
   \<and> MAX_RETRIES = 2
   \<and> currentRetryCount new_call = 0
   \<and> currentRetryCount (fst (clientApi env new_call)) = refreshes (fst (clientApi env new_call))
   \<and> exchanges (fst (clientApi env new_call)) \<le> refreshes (fst (clientApi env new_call)) + 1
   \<and> (has_broadcaster env
        \<and> (\<forall>n<3. \<exists>tok. getChannelAccessToken env n = Inr tok)
        \<and> (\<forall>n<3. \<forall>auth. exchange env n auth = AxiosError True (Some 401))
        \<and> (\<forall>n<2. \<exists>t. refreshUserToken env n = Inr (Some t) \<and> t \<noteq> [])
      \<longrightarrow> clientApi env new_call =
            (\<lparr>retryCount = Some 2, token_reads = 3, exchanges = 3, refreshes = 2\<rparr>,
             Inl (Rejected (Some 401))))
   \<and> (has_broadcaster env \<and> getChannelAccessToken env (token_reads c) = Inr tok
        \<and> exchange env (exchanges c) (''Bearer '' @ tok) = AxiosError True (Some 401)
        \<and> currentRetryCount c < MAX_RETRIES
        \<and> refreshUserToken env (refreshes c) = Inl err
      \<longrightarrow> clientApi env c =
            (c\<lparr>token_reads := Suc (token_reads c), exchanges := Suc (exchanges c),
               retryCount := Some (Suc (currentRetryCount c)),
               refreshes := Suc (refreshes c)\<rparr>,
             Inl (Thrown err)))
   \<and> (has_broadcaster env \<and> getChannelAccessToken env (token_reads c) = Inr tok
        \<and> exchange env (exchanges c) (''Bearer '' @ tok) = AxiosError True (Some 401)
        \<and> currentRetryCount c < MAX_RETRIES
        \<and> (refreshUserToken env (refreshes c) = Inr None
            \<or> refreshUserToken env (refreshes c) = Inr (Some []))
      \<longrightarrow> clientApi env c =
            (c\<lparr>token_reads := Suc (token_reads c), exchanges := Suc (exchanges c),
               retryCount := Some (Suc (currentRetryCount c)),
               refreshes := Suc (refreshes c)\<rparr>,
             Inl (Rejected (Some 401))))
   \<and> (has_broadcaster env \<and> getChannelAccessToken env (token_reads c) = Inr tok
        \<and> exchange env (exchanges c) (''Bearer '' @ tok) = AxiosError True (Some 401)
        \<and> currentRetryCount c < MAX_RETRIES
        \<and> refreshUserToken env (refreshes c) = Inr (Some t) \<and> t \<noteq> []
      \<longrightarrow> clientApi env c =
            clientApi env
              (c\<lparr>token_reads := Suc (token_reads c), exchanges := Suc (exchanges c),
                 retryCount := Some (Suc (currentRetryCount c)),
                 refreshes := Suc (refreshes c)\<rparr>))
   \<and> (has_broadcaster env \<and> getChannelAccessToken env (token_reads c) = Inr tok
        \<and> exchange env (exchanges c) (''Bearer '' @ tok) = AxiosError has_config statusCode
        \<and> \<not> (has_config \<and> statusCode = Some 401 \<and> currentRetryCount c < MAX_RETRIES)
      \<longrightarrow> clientApi env c =
            (c\<lparr>token_reads := Suc (token_reads c), exchanges := Suc (exchanges c)\<rparr>,
             Inl (Rejected statusCode)))
   \<and> (has_broadcaster env \<and> getChannelAccessToken env (token_reads c) = Inr tok
        \<and> exchange env (exchanges c) (''Bearer '' @ tok) = Response st
      \<longrightarrow> clientApi env c =
            (c\<lparr>token_reads := Suc (token_reads c), exchanges := Suc (exchanges c)\<rparr>,
             Inr st))"
proof -
  obtain c' res where r: "clientApi env new_call = (c', res)"
    by (cases "clientApi env new_call")
  have z: "currentRetryCount new_call = 0" "refreshes new_call = 0" "exchanges new_call = 0"
    by (simp_all add: new_call_def currentRetryCount_def)
  have f: "fst (clientApi env new_call) = c'"
    by (simp add: r)
  from clientApi_counts [OF r] z
  have a: "refreshes c' \<le> MAX_RETRIES" "currentRetryCount c' = refreshes c'"
    "exchanges c' \<le> refreshes c' + 1"
    by simp_all
  have m: "MAX_RETRIES = 2"
    by (rule MAX_RETRIES_def)
  have p: "has_broadcaster env
        \<and> (\<forall>n<3. \<exists>tok. getChannelAccessToken env n = Inr tok)
        \<and> (\<forall>n<3. \<forall>auth. exchange env n auth = AxiosError True (Some 401))
        \<and> (\<forall>n<2. \<exists>t. refreshUserToken env n = Inr (Some t) \<and> t \<noteq> [])
      \<longrightarrow> clientApi env new_call =
            (\<lparr>retryCount = Some 2, token_reads = 3, exchanges = 3, refreshes = 2\<rparr>,
             Inl (Rejected (Some 401)))"
    using clientApi_persistent_401 [of env] by blast
  show ?thesis
    unfolding f
    using a m z(1) p clientApi_refresh_throws [of env c tok err]
      clientApi_refresh_empty [of env c tok] clientApi_retry_step [of env c tok t]
      clientApi_other_error [of env c tok has_config statusCode]
      clientApi_success [of env c tok st]
    by (intro conjI impI) blast+
qed

lemma example_env_facts:
  "has_broadcaster refresh_throws" "has_broadcaster refresh_empty"
  "has_broadcaster always_403" "has_broadcaster once_401"
  by (simp_all add: has_broadcaster_def refresh_throws_def refresh_empty_def always_403_def
      once_401_def)

theorem clientApi_retries_bounded_witness:
  "has_broadcaster always_401
   \<and> clientApi always_401 new_call =
        (\<lparr>retryCount = Some 2, token_reads = 3, exchanges = 3, refreshes = 2\<rparr>,
         Inl (Rejected (Some 401)))
   \<and> clientApi refresh_throws new_call =
        (\<lparr>retryCount = Some 1, token_reads = 1, exchanges = 1, refreshes = 1\<rparr>,
         Inl (Thrown (Error ''No refresh token found for channel'')))
   \<and> clientApi refresh_empty new_call =
        (\<lparr>retryCount = Some 1, token_reads = 1, exchanges = 1, refreshes = 1\<rparr>,
         Inl (Rejected (Some 401)))
   \<and> clientApi always_403 new_call =
        (\<lparr>retryCount = None, token_reads = 1, exchanges = 1, refreshes = 0\<rparr>,
         Inl (Rejected (Some 403)))
   \<and> clientApi once_401 new_call =
        (\<lparr>retryCount = Some 1, token_reads = 2, exchanges = 2, refreshes = 1\<rparr>, Inr 200)"
proof (intro conjI)
  show "has_broadcaster always_401" by (rule always_401_facts(1))
next
  show "clientApi always_401 new_call =
        (\<lparr>retryCount = Some 2, token_reads = 3, exchanges = 3, refreshes = 2\<rparr>,
         Inl (Rejected (Some 401)))"
    using clientApi_retries_bounded [of always_401] always_401_facts by blast
next
  have "clientApi refresh_throws new_call =
          (new_call\<lparr>token_reads := Suc (token_reads new_call),
                     exchanges := Suc (exchanges new_call),
                     retryCount := Some (Suc (currentRetryCount new_call)),
                     refreshes := Suc (refreshes new_call)\<rparr>,
           Inl (Thrown (Error ''No refresh token found for channel'')))"
    using clientApi_retries_bounded [where env = refresh_throws and c = new_call
        and tok = "''stored''" and err = "Error ''No refresh token found for channel''"]
      example_env_facts(1)
    by (simp add: refresh_throws_def new_call_def currentRetryCount_def MAX_RETRIES_def)
  then show "clientApi refresh_throws new_call =
        (\<lparr>retryCount = Some 1, token_reads = 1, exchanges = 1, refreshes = 1\<rparr>,
         Inl (Thrown (Error ''No refresh token found for channel'')))"
    by (simp add: new_call_def currentRetryCount_def)
next
  have "clientApi refresh_empty new_call =
          (new_call\<lparr>token_reads := Suc (token_reads new_call),
                     exchanges := Suc (exchanges new_call),
                     retryCount := Some (Suc (currentRetryCount new_call)),
                     refreshes := Suc (refreshes new_call)\<rparr>,
           Inl (Rejected (Some 401)))"
    using clientApi_retries_bounded [where env = refresh_empty and c = new_call
        and tok = "''stored''"]
      example_env_facts(2)
    by (simp add: refresh_empty_def new_call_def currentRetryCount_def MAX_RETRIES_def)
  then show "clientApi refresh_empty new_call =
        (\<lparr>retryCount = Some 1, token_reads = 1, exchanges = 1, refreshes = 1\<rparr>,
         Inl (Rejected (Some 401)))"
    by (simp add: new_call_def currentRetryCount_def)
next
  have "clientApi always_403 new_call =
          (new_call\<lparr>token_reads := Suc (token_reads new_call),
                     exchanges := Suc (exchanges new_call)\<rparr>,
           Inl (Rejected (Some 403)))"
    using clientApi_retries_bounded [where env = always_403 and c = new_call
        and tok = "''stored''" and has_config = True and statusCode = "Some 403"]
      example_env_facts(3)
    by (simp add: always_403_def new_call_def)
  then show "clientApi always_403 new_call =
        (\<lparr>retryCount = None, token_reads = 1, exchanges = 1, refreshes = 0\<rparr>,
         Inl (Rejected (Some 403)))"
    by (simp add: new_call_def)
next
  let ?c1 = "\<lparr>retryCount = Some (Suc 0), token_reads = Suc 0, exchanges = Suc 0,
              refreshes = Suc 0\<rparr>"
  have s1: "clientApi once_401 new_call = clientApi once_401 ?c1"
    using clientApi_retries_bounded [where env = once_401 and c = new_call
        and tok = "''stored''" and t = "''fresh''"]
      example_env_facts(4)
    by (simp add: once_401_def new_call_def currentRetryCount_def MAX_RETRIES_def)
  have s2: "clientApi once_401 ?c1 =
          (\<lparr>retryCount = Some (Suc 0), token_reads = Suc (Suc 0), exchanges = Suc (Suc 0),
            refreshes = Suc 0\<rparr>, Inr 200)"
    using clientApi_retries_bounded [where env = once_401 and c = ?c1
        and tok = "''stored''" and st = 200]
      example_env_facts(4)
    by (simp add: once_401_def)
  show "clientApi once_401 new_call =
        (\<lparr>retryCount = Some 1, token_reads = 2, exchanges = 2, refreshes = 1\<rparr>, Inr 200)"
    unfolding s1 s2 by (simp add: numeral_2_eq_2)
qed

text \<open>
  Claim C3 as stated (exactly one refresh, exactly one retry) fails when the service
  keeps answering 401: the call refreshes the token twice and sends the request three
  times, that is, it retries twice.
\<close>

theorem clientApi_single_retry_counterexample:
  "refreshes (fst (clientApi always_401 new_call)) = 2
   \<and> exchanges (fst (clientApi always_401 new_call)) = 3"
  using clientApi_persistent_401 [OF always_401_facts] by simp

section \<open>App token interceptor: properties\<close>

text \<open>
  Claim C9: when the stored app token is expired at request time
  (\<open>now > updated_at + expires_in * 1000\<close>), the request interceptor calls
  \<^verbatim>\<open>refreshAppToken\<close> once, and whenever it lets the request go out, the
  Authorization header is \<open>Bearer\<close> followed by the stored \<open>access_token\<close>, not by the
  token the refresh returned.
\<close>

theorem appInterceptor_sends_stale_token:
  assumes "updated_at t = Some u" and "now > u + expires_in t * 1000"
  shows "checkTokenExpiry now (updated_at t) (expires_in t)
       \<and> fst (appInterceptor_request client_id now (Inr t) refreshed) = 1
       \<and> (\<forall>h. snd (appInterceptor_request client_id now (Inr t) refreshed) = Inr h
              \<longrightarrow> Authorization h = ''Bearer '' @ access_token t)
       \<and> (\<forall>new. refreshed = Inr (Some new) \<and> new \<noteq> []
              \<longrightarrow> snd (appInterceptor_request client_id now (Inr t) refreshed)
                    = Inr \<lparr>Client_Id = client_id, Content_Type = ''application/json'',
                           Authorization = ''Bearer '' @ access_token t\<rparr>)"
  using assms
  by (auto simp add: appInterceptor_request_def checkTokenExpiry_def Let_def
      split: sum.splits option.splits if_splits)

theorem appInterceptor_sends_stale_token_witness:
  "updated_at stale_token = Some 0 \<and> (3600001::int) > 0 + expires_in stale_token * 1000
   \<and> appInterceptor_request ''client'' 3600001 (Inr stale_token) (Inr (Some ''new''))
        = (1, Inr \<lparr>Client_Id = ''client'', Content_Type = ''application/json'',
                   Authorization = ''Bearer old''\<rparr>)"
  using appInterceptor_sends_stale_token [of stale_token 0 3600001 "''client''" "Inr (Some ''new'')"]
  by (simp add: stale_token_def prod_eq_iff)

section \<open>Webhook transport: properties\<close>

lemma webhook_missing_header:
  assumes "header_missing (getTwitchHeader headers TWITCH_MESSAGE_ID)
         \<or> header_missing (getTwitchHeader headers TWITCH_MESSAGE_TIMESTAMP)
         \<or> header_missing (getTwitchHeader headers TWITCH_MESSAGE_SIGNATURE)
         \<or> header_missing (getTwitchHeader headers TWITCH_MESSAGE_TYPE)"
  shows "webhook env headers rawBody =
           ([], Inr \<lparr>status = 400,
                     body = JsonBody ''Missing required headers''
                              ''Twitch EventSub webhook requires specific headers''\<rparr>)"
  using assms by (auto simp add: webhook_def twitchEventSubVerification_def Let_def)

lemma webhook_verified:
  assumes "required_headers headers mid ts sg mt"
  shows "webhook env headers rawBody =
           (if \<not> verifySignature env mid ts rawBody sg then
              ([Log ''Invalid Twitch EventSub signature''],
               Inr \<lparr>status = 403,
                    body = JsonBody ''Invalid signature''
                             ''Request signature verification failed''\<rparr>)
            else
              (case JSON_parse env rawBody of
                 None \<Rightarrow>
                   ([], Inr \<lparr>status = 400,
                             body = JsonBody ''Invalid JSON''
                                      ''Failed to parse notification body''\<rparr>)
               | Some notification \<Rightarrow> handleTwitchEventSub env notification mt))"
  using assms
  by (simp add: webhook_def twitchEventSubVerification_def Let_def required_headers_def)

lemma challenge_truthy: "get_prop n ''challenge'' = JStr ch \<Longrightarrow> truthy n"
  by (cases n) simp_all

lemma handleVerification_ok:
  assumes "get_prop n ''challenge'' = JStr ch" and "ch \<noteq> []" and "has_subscription n"
  shows "handleVerification n =
           ([Log ''EventSub verification challenge received''],
            Inr \<lparr>status = 200, body = TextBody ch\<rparr>)"
proof -
  from assms(3) obtain sid where "read_prop (get_prop n ''subscription'') ''id'' = Inr sid"
    by (cases "get_prop n ''subscription''") (simp_all add: has_subscription_def)
  with assms(1,2) show ?thesis by (simp add: handleVerification_def Let_def)
qed

lemma handleRevocation_ok:
  assumes "has_subscription n"
  shows "handleRevocation n =
           ([Log ''EventSub subscription revoked''], Inr \<lparr>status = 204, body = EmptyBody\<rparr>)"
proof -
  from assms obtain sid where "read_prop (get_prop n ''subscription'') ''id'' = Inr sid"
    by (cases "get_prop n ''subscription''") (simp_all add: has_subscription_def)
  then show ?thesis by (simp add: handleRevocation_def Let_def)
qed

lemma handleNotification_ok:
  assumes "snd (handleEventsub env n) = Inr ()"
  shows "snd (handleNotification env n) = Inr \<lparr>status = 204, body = EmptyBody\<rparr>"
  using assms by (cases "handleEventsub env n") (auto simp add: handleNotification_def)

lemma message_types_differ:
  "MESSAGE_TYPE_NOTIFICATION \<noteq> MESSAGE_TYPE_VERIFICATION"
  "MESSAGE_TYPE_REVOCATION \<noteq> MESSAGE_TYPE_VERIFICATION"
  "MESSAGE_TYPE_REVOCATION \<noteq> MESSAGE_TYPE_NOTIFICATION"
  "MESSAGE_TYPE_VERIFICATION \<noteq> []" "MESSAGE_TYPE_NOTIFICATION \<noteq> []"
  "MESSAGE_TYPE_REVOCATION \<noteq> []"
  by (simp_all add: MESSAGE_TYPE_NOTIFICATION_def MESSAGE_TYPE_VERIFICATION_def
      MESSAGE_TYPE_REVOCATION_def)

text \<open>
  Claim C2, as the code has it. A missing or empty required header gives 400. With
  the four headers present: an invalid signature gives 403; a valid signature over a
  body that is not JSON gives 400; a verification message whose payload has a
  non-empty string \<^verbatim>\<open>challenge\<close> and a \<^verbatim>\<open>subscription\<close> gives 200 with exactly
  the challenge as body; a notification whose dispatch returns gives 204 with an empty
  body; a revocation whose payload has a \<^verbatim>\<open>subscription\<close> gives 204 with an empty
  body.
\<close>

theorem webhook_contract:
  "(header_missing (getTwitchHeader headers TWITCH_MESSAGE_ID)
      \<or> header_missing (getTwitchHeader headers TWITCH_MESSAGE_TIMESTAMP)
      \<or> header_missing (getTwitchHeader headers TWITCH_MESSAGE_SIGNATURE)
      \<or> header_missing (getTwitchHeader headers TWITCH_MESSAGE_TYPE)
    \<longrightarrow> webhook env headers rawBody =
          ([], Inr \<lparr>status = 400,
                    body = JsonBody ''Missing required headers''
                             ''Twitch EventSub webhook requires specific headers''\<rparr>))
   \<and> (required_headers headers mid ts sg mt \<and> \<not> verifySignature env mid ts rawBody sg
    \<longrightarrow> webhook env headers rawBody =
          ([Log ''Invalid Twitch EventSub signature''],
           Inr \<lparr>status = 403,
                body = JsonBody ''Invalid signature''
                         ''Request signature verification failed''\<rparr>))
   \<and> (required_headers headers mid ts sg mt \<and> verifySignature env mid ts rawBody sg
      \<and> JSON_parse env rawBody = None
    \<longrightarrow> webhook env headers rawBody =
          ([], Inr \<lparr>status = 400,
                    body = JsonBody ''Invalid JSON'' ''Failed to parse notification body''\<rparr>))
   \<and> (required_headers headers mid ts sg mt \<and> verifySignature env mid ts rawBody sg
      \<and> JSON_parse env rawBody = Some n \<and> mt = MESSAGE_TYPE_VERIFICATION
      \<and> get_prop n ''challenge'' = JStr ch \<and> ch \<noteq> [] \<and> has_subscription n
    \<longrightarrow> webhook env headers rawBody =
          ([Log ''EventSub verification challenge received''],
           Inr \<lparr>status = 200, body = TextBody ch\<rparr>))
   \<and> (required_headers headers mid ts sg mt \<and> verifySignature env mid ts rawBody sg
      \<and> JSON_parse env rawBody = Some n \<and> mt = MESSAGE_TYPE_NOTIFICATION
      \<and> truthy n \<and> snd (handleEventsub env n) = Inr ()
    \<longrightarrow> snd (webhook env headers rawBody) = Inr \<lparr>status = 204, body = EmptyBody\<rparr>)
   \<and> (required_headers headers mid ts sg mt \<and> verifySignature env mid ts rawBody sg
      \<and> JSON_parse env rawBody = Some n \<and> mt = MESSAGE_TYPE_REVOCATION
      \<and> truthy n \<and> has_subscription n
    \<longrightarrow> snd (webhook env headers rawBody) = Inr \<lparr>status = 204, body = EmptyBody\<rparr>)"
proof (intro conjI impI)
  assume "header_missing (getTwitchHeader headers TWITCH_MESSAGE_ID)
      \<or> header_missing (getTwitchHeader headers TWITCH_MESSAGE_TIMESTAMP)
      \<or> header_missing (getTwitchHeader headers TWITCH_MESSAGE_SIGNATURE)
      \<or> header_missing (getTwitchHeader headers TWITCH_MESSAGE_TYPE)"
  then show "webhook env headers rawBody =
          ([], Inr \<lparr>status = 400,
                    body = JsonBody ''Missing required headers''
                             ''Twitch EventSub webhook requires specific headers''\<rparr>)"
    by (rule webhook_missing_header)
next
  assume "required_headers headers mid ts sg mt \<and> \<not> verifySignature env mid ts rawBody sg"
  then show "webhook env headers rawBody =
          ([Log ''Invalid Twitch EventSub signature''],
           Inr \<lparr>status = 403,
                body = JsonBody ''Invalid signature''
                         ''Request signature verification failed''\<rparr>)"
    by (simp add: webhook_verified [of headers mid ts sg mt])
next
  assume "required_headers headers mid ts sg mt \<and> verifySignature env mid ts rawBody sg
      \<and> JSON_parse env rawBody = None"
  then show "webhook env headers rawBody =
          ([], Inr \<lparr>status = 400,
                    body = JsonBody ''Invalid JSON'' ''Failed to parse notification body''\<rparr>)"
    by (simp add: webhook_verified [of headers mid ts sg mt])
next
  assume a: "required_headers headers mid ts sg mt \<and> verifySignature env mid ts rawBody sg
      \<and> JSON_parse env rawBody = Some n \<and> mt = MESSAGE_TYPE_VERIFICATION
      \<and> get_prop n ''challenge'' = JStr ch \<and> ch \<noteq> [] \<and> has_subscription n"
  then have r: "required_headers headers mid ts sg mt"
    and v: "verifySignature env mid ts rawBody sg" and p: "JSON_parse env rawBody = Some n"
    and m: "mt = MESSAGE_TYPE_VERIFICATION" and c: "get_prop n ''challenge'' = JStr ch"
    and e: "ch \<noteq> []" and s: "has_subscription n"
    by blast+
  have t: "truthy n" using c by (rule challenge_truthy)
  have "webhook env headers rawBody = handleTwitchEventSub env n mt"
    using v p by (simp add: webhook_verified [OF r])
  also have "\<dots> = handleVerification n"
    using t m by (simp add: handleTwitchEventSub_def message_types_differ)
  also have "\<dots> = ([Log ''EventSub verification challenge received''],
                    Inr \<lparr>status = 200, body = TextBody ch\<rparr>)"
    using c e s by (rule handleVerification_ok)
  finally show "webhook env headers rawBody =
          ([Log ''EventSub verification challenge received''],
           Inr \<lparr>status = 200, body = TextBody ch\<rparr>)" .
next
  assume a: "required_headers headers mid ts sg mt \<and> verifySignature env mid ts rawBody sg
      \<and> JSON_parse env rawBody = Some n \<and> mt = MESSAGE_TYPE_NOTIFICATION
      \<and> truthy n \<and> snd (handleEventsub env n) = Inr ()"
  then have r: "required_headers headers mid ts sg mt"
    and v: "verifySignature env mid ts rawBody sg" and p: "JSON_parse env rawBody = Some n"
    and m: "mt = MESSAGE_TYPE_NOTIFICATION" and t: "truthy n"
    and h: "snd (handleEventsub env n) = Inr ()"
    by blast+
  have "webhook env headers rawBody = handleTwitchEventSub env n mt"
    using v p by (simp add: webhook_verified [OF r])
  also have "\<dots> = handleNotification env n"
    using t m by (simp add: handleTwitchEventSub_def message_types_differ)
  finally show "snd (webhook env headers rawBody) = Inr \<lparr>status = 204, body = EmptyBody\<rparr>"
    using handleNotification_ok [OF h] by simp
next
  assume a: "required_headers headers mid ts sg mt \<and> verifySignature env mid ts rawBody sg
      \<and> JSON_parse env rawBody = Some n \<and> mt = MESSAGE_TYPE_REVOCATION
      \<and> truthy n \<and> has_subscription n"
  then have r: "required_headers headers mid ts sg mt"
    and v: "verifySignature env mid ts rawBody sg" and p: "JSON_parse env rawBody = Some n"
    and m: "mt = MESSAGE_TYPE_REVOCATION" and t: "truthy n" and s: "has_subscription n"
    by blast+
  have "webhook env headers rawBody = handleTwitchEventSub env n mt"
    using v p by (simp add: webhook_verified [OF r])
  also have "\<dots> = handleRevocation n"
    using t m by (simp add: handleTwitchEventSub_def message_types_differ)
  finally show "snd (webhook env headers rawBody) = Inr \<lparr>status = 204, body = EmptyBody\<rparr>"
    using handleRevocation_ok [OF s] by simp
qed


lemma example_required:
  assumes "sg \<noteq> []" and "mt \<noteq> []"
  shows "required_headers (example_headers sg mt) ''m-1'' ''2024-05-01T12:00:00Z'' sg mt"
  using assms
  by (simp add: required_headers_def example_headers_def toLowerCase_def toLowerCase_char_def
      TWITCH_MESSAGE_ID_def TWITCH_MESSAGE_TIMESTAMP_def TWITCH_MESSAGE_SIGNATURE_def
      TWITCH_MESSAGE_TYPE_def)

lemma example_valid:
  "verifySignature example_env ''m-1'' ''2024-05-01T12:00:00Z'' b (example_signature b)"
  by (simp add: verifySignature_def example_env_def example_signature_def Let_def
      buildHmacMessage_def generateHmac_def HMAC_PREFIX_def timingSafeEqual_def
      example_hmac_def)

lemma example_signature_nonempty: "example_signature b \<noteq> []"
  by (simp add: example_signature_def)

lemma example_invalid:
  "\<not> verifySignature example_env ''m-1'' ''2024-05-01T12:00:00Z'' notification_body
       ''sha256=0000''"
  by (simp add: verifySignature_def example_env_def Let_def buildHmacMessage_def
      generateHmac_def HMAC_PREFIX_def timingSafeEqual_def example_hmac_def
      notification_body_def)

lemma example_parse_facts:
  "JSON_parse example_env ''not json'' = None"
  "JSON_parse example_env ''{}'' = Some (JObj [])"
  "JSON_parse example_env verification_body = Some verification_json"
  "JSON_parse example_env notification_body = Some notification_json"
  "JSON_parse example_env revocation_body = Some revocation_json"
  by (simp_all add: example_env_def example_parse_def verification_body_def
      notification_body_def revocation_body_def)

lemma example_dispatch_returns: "snd (handleEventsub example_env notification_json) = Inr ()"
  by (simp add: handleEventsub_def notification_json_def example_env_def Let_def
      processTwitchEvent_def extractReceivingBroadcasterId_def db_only_42_def
      known_broadcaster_def two_handlers_def registerTwitchHandler_def wrapped_handler_def
      validate_def quiet_handler_def)

theorem webhook_contract_witness:
  "webhook example_env [] verification_body =
     ([], Inr \<lparr>status = 400,
               body = JsonBody ''Missing required headers''
                        ''Twitch EventSub webhook requires specific headers''\<rparr>)
   \<and> webhook example_env (example_headers ''sha256=0000'' MESSAGE_TYPE_NOTIFICATION)
        notification_body =
       ([Log ''Invalid Twitch EventSub signature''],
        Inr \<lparr>status = 403,
             body = JsonBody ''Invalid signature'' ''Request signature verification failed''\<rparr>)
   \<and> webhook example_env
        (example_headers (example_signature ''not json'') MESSAGE_TYPE_NOTIFICATION)
        ''not json'' =
       ([], Inr \<lparr>status = 400,
                 body = JsonBody ''Invalid JSON'' ''Failed to parse notification body''\<rparr>)
   \<and> webhook example_env
        (example_headers (example_signature verification_body) MESSAGE_TYPE_VERIFICATION)
        verification_body =
       ([Log ''EventSub verification challenge received''],
        Inr \<lparr>status = 200, body = TextBody ''abc123''\<rparr>)
   \<and> snd (webhook example_env
        (example_headers (example_signature notification_body) MESSAGE_TYPE_NOTIFICATION)
        notification_body) = Inr \<lparr>status = 204, body = EmptyBody\<rparr>
   \<and> snd (webhook example_env
        (example_headers (example_signature revocation_body) MESSAGE_TYPE_REVOCATION)
        revocation_body) = Inr \<lparr>status = 204, body = EmptyBody\<rparr>"
proof (intro conjI)
  have "header_missing (getTwitchHeader [] TWITCH_MESSAGE_ID)" by simp
  with webhook_contract [where headers = "[]" and env = example_env
      and rawBody = verification_body]
  show "webhook example_env [] verification_body =
     ([], Inr \<lparr>status = 400,
               body = JsonBody ''Missing required headers''
                        ''Twitch EventSub webhook requires specific headers''\<rparr>)"
    by blast
next
  have r: "required_headers (example_headers ''sha256=0000'' MESSAGE_TYPE_NOTIFICATION)
             ''m-1'' ''2024-05-01T12:00:00Z'' ''sha256=0000'' MESSAGE_TYPE_NOTIFICATION"
    by (rule example_required) (simp_all add: message_types_differ)
  with example_invalid
    webhook_contract [where headers = "example_headers ''sha256=0000'' MESSAGE_TYPE_NOTIFICATION"
      and env = example_env and rawBody = notification_body and mid = "''m-1''"
      and ts = "''2024-05-01T12:00:00Z''" and sg = "''sha256=0000''"
      and mt = MESSAGE_TYPE_NOTIFICATION]
  show "webhook example_env (example_headers ''sha256=0000'' MESSAGE_TYPE_NOTIFICATION)
        notification_body =
       ([Log ''Invalid Twitch EventSub signature''],
        Inr \<lparr>status = 403,
             body = JsonBody ''Invalid signature'' ''Request signature verification failed''\<rparr>)"
    by blast
next
  have r: "required_headers
             (example_headers (example_signature ''not json'') MESSAGE_TYPE_NOTIFICATION)
             ''m-1'' ''2024-05-01T12:00:00Z'' (example_signature ''not json'')
             MESSAGE_TYPE_NOTIFICATION"
    by (rule example_required) (simp_all add: message_types_differ example_signature_nonempty)
  with example_valid [of "''not json''"] example_parse_facts(1)
    webhook_contract [where headers
        = "example_headers (example_signature ''not json'') MESSAGE_TYPE_NOTIFICATION"
      and env = example_env and rawBody = "''not json''" and mid = "''m-1''"
      and ts = "''2024-05-01T12:00:00Z''" and sg = "example_signature ''not json''"
      and mt = MESSAGE_TYPE_NOTIFICATION]
  show "webhook example_env
        (example_headers (example_signature ''not json'') MESSAGE_TYPE_NOTIFICATION)
        ''not json'' =
       ([], Inr \<lparr>status = 400,
                 body = JsonBody ''Invalid JSON'' ''Failed to parse notification body''\<rparr>)"
    by blast
next
  have r: "required_headers
             (example_headers (example_signature verification_body) MESSAGE_TYPE_VERIFICATION)
             ''m-1'' ''2024-05-01T12:00:00Z'' (example_signature verification_body)
             MESSAGE_TYPE_VERIFICATION"
    by (rule example_required) (simp_all add: message_types_differ example_signature_nonempty)
  have c: "get_prop verification_json ''challenge'' = JStr ''abc123''" "''abc123'' \<noteq> []"
    "has_subscription verification_json"
    by (simp_all add: verification_json_def has_subscription_def)
  from r c example_valid [of verification_body] example_parse_facts(3)
    webhook_contract [where headers
        = "example_headers (example_signature verification_body) MESSAGE_TYPE_VERIFICATION"
      and env = example_env and rawBody = verification_body and mid = "''m-1''"
      and ts = "''2024-05-01T12:00:00Z''" and sg = "example_signature verification_body"
      and mt = MESSAGE_TYPE_VERIFICATION and n = verification_json and ch = "''abc123''"]
  show "webhook example_env
        (example_headers (example_signature verification_body) MESSAGE_TYPE_VERIFICATION)
        verification_body =
       ([Log ''EventSub verification challenge received''],
        Inr \<lparr>status = 200, body = TextBody ''abc123''\<rparr>)"
    by blast
next
  have r: "required_headers
             (example_headers (example_signature notification_body) MESSAGE_TYPE_NOTIFICATION)
             ''m-1'' ''2024-05-01T12:00:00Z'' (example_signature notification_body)
             MESSAGE_TYPE_NOTIFICATION"
    by (rule example_required) (simp_all add: message_types_differ example_signature_nonempty)
  have t: "truthy notification_json" by (simp add: notification_json_def)
  from r t example_dispatch_returns example_valid [of notification_body] example_parse_facts(4)
    webhook_contract [where headers
        = "example_headers (example_signature notification_body) MESSAGE_TYPE_NOTIFICATION"
      and env = example_env and rawBody = notification_body and mid = "''m-1''"
      and ts = "''2024-05-01T12:00:00Z''" and sg = "example_signature notification_body"
      and mt = MESSAGE_TYPE_NOTIFICATION and n = notification_json]
  show "snd (webhook example_env
        (example_headers (example_signature notification_body) MESSAGE_TYPE_NOTIFICATION)
        notification_body) = Inr \<lparr>status = 204, body = EmptyBody\<rparr>"
    by blast
next
  have r: "required_headers
             (example_headers (example_signature revocation_body) MESSAGE_TYPE_REVOCATION)
             ''m-1'' ''2024-05-01T12:00:00Z'' (example_signature revocation_body)
             MESSAGE_TYPE_REVOCATION"
    by (rule example_required) (simp_all add: message_types_differ example_signature_nonempty)
  have t: "truthy revocation_json" "has_subscription revocation_json"
    by (simp_all add: revocation_json_def has_subscription_def)
  from r t example_valid [of revocation_body] example_parse_facts(5)
    webhook_contract [where headers
        = "example_headers (example_signature revocation_body) MESSAGE_TYPE_REVOCATION"
      and env = example_env and rawBody = revocation_body and mid = "''m-1''"
      and ts = "''2024-05-01T12:00:00Z''" and sg = "example_signature revocation_body"
      and mt = MESSAGE_TYPE_REVOCATION and n = revocation_json]
  show "snd (webhook example_env
        (example_headers (example_signature revocation_body) MESSAGE_TYPE_REVOCATION)
        revocation_body) = Inr \<lparr>status = 204, body = EmptyBody\<rparr>"
    by blast
qed

text \<open>
  Claim C2 as stated fails on a verification message whose body is \<^verbatim>\<open>{}\<close>: the four
  headers are present and the signature is valid, yet the route answers 400, because
  the payload has no \<^verbatim>\<open>challenge\<close>.
\<close>

theorem webhook_verification_counterexample:
  "required_headers (example_headers (example_signature ''{}'') MESSAGE_TYPE_VERIFICATION)
     ''m-1'' ''2024-05-01T12:00:00Z'' (example_signature ''{}'') MESSAGE_TYPE_VERIFICATION
   \<and> verifySignature example_env ''m-1'' ''2024-05-01T12:00:00Z'' ''{}''
        (example_signature ''{}'')
   \<and> webhook example_env
        (example_headers (example_signature ''{}'') MESSAGE_TYPE_VERIFICATION) ''{}'' =
       ([], Inr \<lparr>status = 400,
                 body = JsonBody ''Invalid challenge''
                          ''Challenge field is missing or invalid''\<rparr>)"
proof -
  have r: "required_headers
             (example_headers (example_signature ''{}'') MESSAGE_TYPE_VERIFICATION)
             ''m-1'' ''2024-05-01T12:00:00Z'' (example_signature ''{}'')
             MESSAGE_TYPE_VERIFICATION"
    by (rule example_required) (simp_all add: message_types_differ example_signature_nonempty)
  have v: "verifySignature example_env ''m-1'' ''2024-05-01T12:00:00Z'' ''{}''
             (example_signature ''{}'')"
    by (rule example_valid)
  have "webhook example_env
          (example_headers (example_signature ''{}'') MESSAGE_TYPE_VERIFICATION) ''{}''
        = handleTwitchEventSub example_env (JObj []) MESSAGE_TYPE_VERIFICATION"
    using v example_parse_facts(2) by (simp add: webhook_verified [OF r])
  also have "\<dots> = ([], Inr \<lparr>status = 400,
                 body = JsonBody ''Invalid challenge''
                          ''Challenge field is missing or invalid''\<rparr>)"
    by (simp add: handleTwitchEventSub_def handleVerification_def message_types_differ)
  finally show ?thesis using r v by simp
qed

end
